theory Spec2Isabelle
  imports Main "HOL-Library.Word" "HOL-Library.Sublist"
begin

section \<open>Strings and paths\<close>

text \<open>
  Go strings are byte sequences; they are modelled as \<^typ>\<open>string\<close>. The functions of
  packages \<open>strings\<close> and \<open>path/filepath\<close> that \<open>Renamer.go\<close> calls are written out for
  Unix paths (separator \<open>/\<close>, no volume names). Case folding is the ASCII one: bytes
  outside \<open>A-Z\<close> and \<open>a-z\<close> are left as they are.
\<close>

definition toLowerChar :: "char \<Rightarrow> char" where
  "toLowerChar c =
     (case map_of (zip ''ABCDEFGHIJKLMNOPQRSTUVWXYZ'' ''abcdefghijklmnopqrstuvwxyz'') c of
        Some d \<Rightarrow> d
      | None \<Rightarrow> c)"

definition toUpperChar :: "char \<Rightarrow> char" where
  "toUpperChar c =
     (case map_of (zip ''abcdefghijklmnopqrstuvwxyz'' ''ABCDEFGHIJKLMNOPQRSTUVWXYZ'') c of
        Some d \<Rightarrow> d
      | None \<Rightarrow> c)"

definition ToLower :: "string \<Rightarrow> string" where
  "ToLower s = map toLowerChar s"

definition ToUpper :: "string \<Rightarrow> string" where
  "ToUpper s = map toUpperChar s"

definition HasSuffix :: "string \<Rightarrow> string \<Rightarrow> bool" where
  "HasSuffix s suf = (length suf \<le> length s \<and> drop (length s - length suf) s = suf)"

definition TrimSuffix :: "string \<Rightarrow> string \<Rightarrow> string" where
  "TrimSuffix s suf = (if HasSuffix s suf then take (length s - length suf) s else s)"

definition isSep :: "char \<Rightarrow> bool" where
  "isSep c = (c = CHR ''/'')"

text \<open>The elements of a path between separators, empty ones included.\<close>

primrec splitSep :: "string \<Rightarrow> string list" where
  "splitSep [] = [[]]"
| "splitSep (c # cs) =
     (if isSep c then [] # splitSep cs
      else (case splitSep cs of [] \<Rightarrow> [[c]] | x # xs \<Rightarrow> (c # x) # xs))"

fun joinSep :: "string list \<Rightarrow> string" where
  "joinSep [] = []"
| "joinSep [x] = x"
| "joinSep (x # y # ys) = x @ ''/'' @ joinSep (y # ys)"

text \<open>
  \<open>filepath.Clean\<close>: empty and \<open>.\<close> elements are dropped, a \<open>..\<close> removes the element
  before it, a \<open>..\<close> at the root is dropped, and one that cannot be resolved in a relative
  path is kept. The empty result is \<open>.\<close>.
\<close>

definition cleanStep :: "bool \<Rightarrow> string list \<Rightarrow> string \<Rightarrow> string list" where
  "cleanStep rooted out c =
     (if c = [] \<or> c = ''.'' then out
      else if c = ''..'' then
        (if out \<noteq> [] \<and> last out \<noteq> ''..'' then butlast out
         else if rooted then out
         else out @ [''..''])
      else out @ [c])"

definition IsAbs :: "string \<Rightarrow> bool" where
  "IsAbs p = (case p of [] \<Rightarrow> False | c # _ \<Rightarrow> isSep c)"

definition Clean :: "string \<Rightarrow> string" where
  "Clean p =
     (if p = [] then ''.''
      else let rooted = IsAbs p;
               out = foldl (cleanStep rooted) [] (splitSep p);
               s = (if rooted then ''/'' else []) @ joinSep out
           in if s = [] then ''.'' else s)"

definition lastElem :: "string \<Rightarrow> string" where
  "lastElem p = rev (takeWhile (\<lambda>c. \<not> isSep c) (rev p))"

definition Base :: "string \<Rightarrow> string" where
  "Base p =
     (if p = [] then ''.''
      else let q = rev (dropWhile isSep (rev p));
               b = lastElem q
           in if b = [] then ''/'' else b)"

definition Ext :: "string \<Rightarrow> string" where
  "Ext p =
     (let e = lastElem p
      in if CHR ''.'' \<in> set e
         then CHR ''.'' # rev (takeWhile (\<lambda>c. c \<noteq> CHR ''.'') (rev e))
         else [])"

definition Dir :: "string \<Rightarrow> string" where
  "Dir p = Clean (rev (dropWhile (\<lambda>c. \<not> isSep c) (rev p)))"

definition Join :: "string list \<Rightarrow> string" where
  "Join elem =
     (case dropWhile (\<lambda>e. e = []) elem of
        [] \<Rightarrow> []
      | e # es \<Rightarrow> Clean (joinSep (e # es)))"

text \<open>\<open>filepath.Abs\<close>, with the working directory given.\<close>

definition Abs :: "string \<Rightarrow> string \<Rightarrow> string" where
  "Abs wd p = (if IsAbs p then Clean p else Join [wd, p])"

subsection \<open>Formatting of integers\<close>

text \<open>
  Go's \<open>int\<close> is taken as 64 bits wide. The verb \<open>%03d\<close> pads with zeros to width 3,
  the sign counting towards the width.
\<close>

type_synonym go_int = "64 word"

fun decimal :: "nat \<Rightarrow> string" where
  "decimal n =
     (if n < 10 then [''0123456789'' ! n]
      else decimal (n div 10) @ [''0123456789'' ! (n mod 10)])"

declare decimal.simps [simp del]

definition zeroPad :: "nat \<Rightarrow> string \<Rightarrow> string" where
  "zeroPad width s = replicate (width - length s) (CHR ''0'') @ s"

definition fmt03d :: "go_int \<Rightarrow> string" where
  "fmt03d n =
     (if sint n < 0 then ''-'' @ zeroPad 2 (decimal (nat (- sint n)))
      else zeroPad 3 (decimal (nat (sint n))))"

section \<open>The file system and the process state\<close>

text \<open>
  A file system is a tree: a directory lists its entries in directory order, a regular file
  has its contents. The names of the entries of a directory are meant to be distinct.
  There are no symbolic links and no permissions. A path names a node by its elements
  after \<open>filepath.Abs\<close>, so that \<open>.\<close> and \<open>..\<close> are resolved lexically; the empty path
  names nothing.
\<close>

datatype node = File string | Directory "(string \<times> node) list"

datatype errno = ENOENT | ENOTDIR | EISDIR | EEXIST | EINVAL | EBUSY

datatype oserror =
    PathError string string errno
  | LinkError string string string errno
  | ErrInvalid

definition strerror :: "errno \<Rightarrow> string" where
  "strerror e =
     (case e of
        ENOENT \<Rightarrow> ''no such file or directory''
      | ENOTDIR \<Rightarrow> ''not a directory''
      | EISDIR \<Rightarrow> ''is a directory''
      | EEXIST \<Rightarrow> ''file exists''
      | EINVAL \<Rightarrow> ''invalid argument''
      | EBUSY \<Rightarrow> ''device or resource busy'')"

text \<open>The method \<open>Error()\<close> of an error value.\<close>

definition Error :: "oserror \<Rightarrow> string" where
  "Error e =
     (case e of
        PathError oper path en \<Rightarrow> oper @ '' '' @ path @ '': '' @ strerror en
      | LinkError oper old new en \<Rightarrow> oper @ '' '' @ old @ '' '' @ new @ '': '' @ strerror en
      | ErrInvalid \<Rightarrow> ''invalid argument'')"

datatype syscall =
    SysLstat string
  | SysOpen string
  | SysReaddir string
  | SysCreate string
  | SysCopy "string option" "string option"
  | SysRename string string

datatype event = Stdout string | Stderr string | Sys syscall

text \<open>
  The state of a run: the file system, the working directory, everything the process has
  done so far in order (system calls and the text written to the two streams), and the
  global variable \<open>operationSuccessful\<close>, which counts what went wrong.
\<close>

record world =
  root :: node
  cwd :: string
  trace :: "event list"
  operationSuccessful :: go_int

definition emit :: "event \<Rightarrow> world \<Rightarrow> world" where
  "emit e w = w\<lparr>trace := trace w @ [e]\<rparr>"

text \<open>
  \<open>fmt.Fprintf(os.Stdout, ...)\<close> and \<open>fmt.Fprintf(os.Stderr, ...)\<close>, with the text
  already formatted. Where the source passes a message as the format itself, the message
  is recorded as it is.
\<close>

definition Fprintf_Stdout :: "string \<Rightarrow> world \<Rightarrow> world" where
  "Fprintf_Stdout s w = emit (Stdout s) w"

definition Fprintf_Stderr :: "string \<Rightarrow> world \<Rightarrow> world" where
  "Fprintf_Stderr s w = emit (Stderr s) w"

subsection \<open>Looking up and changing nodes\<close>

fun lookup :: "node \<Rightarrow> string list \<Rightarrow> node option" where
  "lookup n [] = Some n"
| "lookup (File c) (x # xs) = None"
| "lookup (Directory es) (x # xs) =
     (case map_of es x of None \<Rightarrow> None | Some n \<Rightarrow> lookup n xs)"

fun putEntry :: "string \<Rightarrow> node \<Rightarrow> (string \<times> node) list \<Rightarrow> (string \<times> node) list" where
  "putEntry x n [] = [(x, n)]"
| "putEntry x n ((k, m) # es) =
     (if k = x then (x, n) # es else (k, m) # putEntry x n es)"

definition removeEntry :: "string \<Rightarrow> (string \<times> node) list \<Rightarrow> (string \<times> node) list" where
  "removeEntry x es = filter (\<lambda>(k, m). k \<noteq> x) es"

text \<open>Change the entries of the directory at a path.\<close>

fun modify ::
  "string list \<Rightarrow> ((string \<times> node) list \<Rightarrow> (string \<times> node) list) \<Rightarrow> node \<Rightarrow> node" where
  "modify ps g (File c) = File c"
| "modify [] g (Directory es) = Directory (g es)"
| "modify (x # xs) g (Directory es) =
     Directory (map (\<lambda>(k, m). if k = x then (k, modify xs g m) else (k, m)) es)"

definition elements :: "world \<Rightarrow> string \<Rightarrow> string list" where
  "elements w name = filter (\<lambda>e. e \<noteq> []) (splitSep (Abs (cwd w) name))"

definition stat :: "world \<Rightarrow> string \<Rightarrow> node option" where
  "stat w name = (if name = [] then None else lookup (root w) (elements w name))"

definition isDirectory :: "node \<Rightarrow> bool" where
  "isDirectory n = (case n of Directory es \<Rightarrow> True | File c \<Rightarrow> False)"

text \<open>Why a path cannot be created or found: the first element that fails decides.\<close>

fun missing :: "node \<Rightarrow> string list \<Rightarrow> errno" where
  "missing (File c) ps = ENOTDIR"
| "missing (Directory es) [] = ENOENT"
| "missing (Directory es) (x # xs) =
     (case map_of es x of None \<Rightarrow> ENOENT | Some n \<Rightarrow> missing n xs)"

subsection \<open>System calls\<close>

text \<open>
  Each call is recorded in the trace. \<open>os.Lstat\<close> gives whether the node is a
  directory; \<open>os.Open\<close> and \<open>os.Create\<close> give the open file, named by its path.
\<close>

definition os_Lstat :: "string \<Rightarrow> world \<Rightarrow> (oserror + bool) \<times> world" where
  "os_Lstat name w =
     (case stat w name of
        None \<Rightarrow> Inl (PathError ''lstat'' name (if name = [] then ENOENT else missing (root w) (elements w name)))
      | Some n \<Rightarrow> Inr (isDirectory n),
      emit (Sys (SysLstat name)) w)"

definition os_Open :: "string \<Rightarrow> world \<Rightarrow> (oserror + string) \<times> world" where
  "os_Open name w =
     (case stat w name of
        None \<Rightarrow> Inl (PathError ''open'' name (if name = [] then ENOENT else missing (root w) (elements w name)))
      | Some n \<Rightarrow> Inr name,
      emit (Sys (SysOpen name)) w)"

text \<open>\<open>Readdir(0)\<close> on an open file: the name and kind of every entry, in directory order.\<close>

definition Readdir :: "string \<Rightarrow> world \<Rightarrow> (oserror + (string \<times> bool) list) \<times> world" where
  "Readdir name w =
     (case stat w name of
        Some (Directory es) \<Rightarrow> Inr (map (\<lambda>(k, n). (k, isDirectory n)) es)
      | Some (File c) \<Rightarrow> Inl (PathError ''readdirent'' name ENOTDIR)
      | None \<Rightarrow> Inl (PathError ''readdirent'' name ENOENT),
      emit (Sys (SysReaddir name)) w)"

text \<open>
  \<open>os.Create\<close> opens with \<open>O_RDWR|O_CREATE|O_TRUNC\<close>: the file is created empty in an
  existing directory, or emptied if it is there already.
\<close>

definition os_Create :: "string \<Rightarrow> world \<Rightarrow> (oserror + string) \<times> world" where
  "os_Create name w =
     (let ps = elements w name;
          w' = emit (Sys (SysCreate name)) w
      in if name = [] then (Inl (PathError ''open'' name ENOENT), w')
         else if ps = [] then (Inl (PathError ''open'' name EISDIR), w')
         else (case lookup (root w) (butlast ps) of
                 None \<Rightarrow> (Inl (PathError ''open'' name (missing (root w) (butlast ps))), w')
               | Some (File c) \<Rightarrow> (Inl (PathError ''open'' name ENOTDIR), w')
               | Some (Directory es) \<Rightarrow>
                   (case map_of es (last ps) of
                      Some (Directory ds) \<Rightarrow> (Inl (PathError ''open'' name EISDIR), w')
                    | _ \<Rightarrow> (Inr name,
                            w'\<lparr>root := modify (butlast ps) (putEntry (last ps) (File [])) (root w)\<rparr>))))"

text \<open>
  \<open>io.Copy(dst, src)\<close> on two \<open>*os.File\<close> values, \<open>None\<close> being the nil pointer that a
  failed \<open>os.Create\<close> or \<open>os.Open\<close> leaves: a nil file gives \<open>ErrInvalid\<close>, reading a
  directory gives \<open>EISDIR\<close>, otherwise the contents of the source are written to the
  destination.
\<close>

definition io_Copy :: "string option \<Rightarrow> string option \<Rightarrow> world \<Rightarrow> oserror option \<times> world" where
  "io_Copy dst src w =
     (let w' = emit (Sys (SysCopy dst src)) w
      in case (dst, src) of
           (Some d, Some s) \<Rightarrow>
             (case stat w s of
                Some (File c) \<Rightarrow>
                  (if elements w d = [] then (Some (PathError ''write'' d EISDIR), w')
                   else (None,
                         w'\<lparr>root :=
                              modify (butlast (elements w d)) (putEntry (last (elements w d)) (File c))
                                (root w)\<rparr>))
              | Some (Directory es) \<Rightarrow> (Some (PathError ''read'' s EISDIR), w')
              | None \<Rightarrow> (Some ErrInvalid, w'))
         | _ \<Rightarrow> (Some ErrInvalid, w'))"

text \<open>
  \<open>os.Rename\<close>: Go refuses a new name that is an existing directory (\<open>file exists\<close>)
  before it calls the system. Otherwise the source must exist and the directory of the
  destination too; a file replaces a file, a directory cannot replace a file or be moved
  into itself. Renaming a path to itself does nothing.
\<close>

definition os_Rename :: "string \<Rightarrow> string \<Rightarrow> world \<Rightarrow> oserror option \<times> world" where
  "os_Rename oldpath newpath w =
     (let old = elements w oldpath;
          new = elements w newpath;
          w' = emit (Sys (SysRename oldpath newpath)) w;
          fails = (\<lambda>en. (Some (LinkError ''rename'' oldpath newpath en), w'))
      in if (case stat w newpath of Some t \<Rightarrow> isDirectory t | None \<Rightarrow> False) then fails EEXIST
         else
           (case stat w oldpath of
              None \<Rightarrow> fails (if oldpath = [] then ENOENT else missing (root w) old)
            | Some n \<Rightarrow>
                if newpath = [] then fails ENOENT
                else if old = [] \<or> new = [] then fails EBUSY
                else if old = new then (None, w')
                else if prefix old new then fails EINVAL
                else (case lookup (root w) (butlast new) of
                        None \<Rightarrow> fails (missing (root w) (butlast new))
                      | Some (File c) \<Rightarrow> fails ENOTDIR
                      | Some (Directory es) \<Rightarrow>
                          if isDirectory n \<and> map_of es (last new) \<noteq> None then fails ENOTDIR
                          else (None,
                                w'\<lparr>root :=
                                     modify (butlast new) (putEntry (last new) n)
                                       (modify (butlast old) (removeEntry (last old)) (root w))\<rparr>))))"

section \<open>The program\<close>

text \<open>
  The two copies of the program in the repository, \<open>Renamer.go\<close> and a later revision
  of it, differ in two places only: the later one calls \<open>writeFile\<close> in
  \<open>lowercaseExtension\<close>, and in its matching loop the test of the base name sits inside
  the branch of the failed compilation, after the \<open>return\<close>. The model takes the
  revision as a parameter at these two places.
\<close>

datatype revision = Renamer_go | Later_revision

definition tab :: string where
  "tab = [CHR 0x09]"

definition quote :: string where
  "quote = [CHR 0x27]"

definition usageMessage :: string where
  "usageMessage = concat (map (\<lambda>l. l @ ''\<newline>'')
     [
      [],
      ''renamer.go (-p <prefix>|-s <suffix>|-i <indexname> -I <num>|-e|-l|-u) [-x <regexp>] [-t <target_dir>] -[cnr]'',
      [],
      ''renamer.go will rename all files matching a regexp or all files in the '',
      ''given directory (and optionally in all its subdirectories) by the flag '',
      ''chosen. It can add a prefix/suffix, rename according to a '',
      ''<name><numeric_index> pattern, make all low/uppercase, lowercase the '',
      ''extension and copy files somewhere else leaving the originals untouched.'',
      [],
      ''Arguments:'',
      [],
      tab @ ''-prefix|-p <prefix>'',
      tab @ tab @ ''Renames matching files by adding a prefix'',
      [],
      tab @ ''-suffix|-s <suffix>'',
      tab @ tab @ ''Renames matching files by adding a suffix'',
      [],
      tab @ ''-index|-i <name>'',
      tab @ tab @ ''Renames matching files to <name><num>. Requires '' @ quote @ ''-I'' @ quote,
      [],
      tab @ ''-startnumber|-I <num>'',
      tab @ tab @ ''The <num> to start renaming in index mode. Requires '' @ quote @ ''-i'' @ quote,
      [],
      tab @ ''-regexp|-x <regexp>'',
      tab @ tab @ ''The regular expression for matching files. Use double quotes '',
      tab @ tab @ ''around it'',
      [],
      tab @ ''-target-dir|-t <path>'',
      tab @ tab @ ''The directory where to rename/copy the files. Default is the '',
      tab @ tab @ ''current directory'',
      [],
      tab @ ''-copy|-c'',
      tab @ tab @ ''Copy instead of renaming'',
      [],
      tab @ ''-lower-extension|-e'',
      tab @ tab @ ''Lowercase the extension'',
      [],
      tab @ ''-lowercase|-l'',
      tab @ tab @ ''Lowercase the new filename. It is mutually exclusive with '',
      tab @ tab @ quote @ ''-u'' @ quote,
      [],
      tab @ ''-uppercase|-u'',
      tab @ tab @ ''Uppercase the new filename. It is mutually exclusive with '',
      tab @ tab @ quote @ ''-l'' @ quote,
      [],
      tab @ ''-dry-run|-n'',
      tab @ tab @ ''List files but don'' @ quote @ ''t actually perform any action'',
      [],
      tab @ ''-force|-f'',
      tab @ tab @ ''Overwrite existing files. The default is to not copy/rename '',
      tab @ tab @ ''if the target file already exists'',
      [],
      tab @ ''-recursive|-r'',
      tab @ tab @ ''Operate recursively on all subdirectories of target-dir''
     ])"

text \<open>The global variables that \<open>flag.Parse\<close> sets, after parsing.\<close>

record flags =
  regexpArg :: string
  prefixArg :: string
  suffixArg :: string
  indexArg :: string
  numArg :: go_int
  targetArg :: string
  lowerExtArg :: bool
  lowerArg :: bool
  upperArg :: bool
  copyArg :: bool
  dryrunArg :: bool
  forceArg :: bool
  recursiveArg :: bool

text \<open>
  A function that may end the process: \<open>Exit\<close> carries the status of \<open>os.Exit\<close>,
  \<open>Return\<close> the value returned. Both carry the state reached.
\<close>

datatype 'a outcome = Exit int world | Return 'a world

definition andThen :: "'a outcome \<Rightarrow> ('a \<Rightarrow> world \<Rightarrow> 'b outcome) \<Rightarrow> 'b outcome" where
  "andThen m f = (case m of Exit c w \<Rightarrow> Exit c w | Return a w \<Rightarrow> f a w)"

text \<open>
  \<open>printUsage\<close> ends in \<open>os.Exit(2)\<close>, so it never returns and no statement after a
  call of it is executed.
\<close>

definition printUsage :: "string \<Rightarrow> world \<Rightarrow> 'a outcome" where
  "printUsage msg w = Exit 2 (Fprintf_Stderr usageMessage (Fprintf_Stderr (msg @ ''\<newline>'') w))"

text \<open>\<open>flagsInit\<close> after \<open>flag.Parse()\<close>: the check of the parsed flags.\<close>

definition flagsInit :: "flags \<Rightarrow> world \<Rightarrow> unit outcome" where
  "flagsInit cfg w =
     (if regexpArg cfg = [] \<and> prefixArg cfg = [] \<and> suffixArg cfg = [] \<and> indexArg cfg = []
         \<and> lowerExtArg cfg = False \<and> lowerArg cfg = False \<and> upperArg cfg = False
      then printUsage ''At least one of the mandatory actions must be given, nothing to do...'' w
      else Return () w)"

definition failed :: "world \<Rightarrow> world" where
  "failed w = w\<lparr>operationSuccessful := operationSuccessful w + 1\<rparr>"

text \<open>The first statement of \<open>writeFile\<close>: is the new name there already?\<close>

definition overwriteGuard :: "flags \<Rightarrow> string \<Rightarrow> world \<Rightarrow> world" where
  "overwriteGuard cfg newname w =
     (let (lstat_res, w1) = os_Lstat newname w;
          lstat_err = (case lstat_res of Inl e \<Rightarrow> Some e | Inr info \<Rightarrow> None)
      in if lstat_err = None \<and> forceArg cfg = False
         then failed (Fprintf_Stderr (''File '' @ newname @ '' already exist! Use -force to override it\<newline>'') w1)
         else w1)"

definition copyFile :: "string \<Rightarrow> string \<Rightarrow> world \<Rightarrow> world" where
  "copyFile oldname newname w =
     (let (create_res, w1) = os_Create newname w;
          w2 = (case create_res of
                  Inl create_err \<Rightarrow> failed (Fprintf_Stderr (Error create_err) w1)
                | Inr f \<Rightarrow> w1);
          copyf = (case create_res of Inl e \<Rightarrow> None | Inr f \<Rightarrow> Some f);
          (open_res, w3) = os_Open oldname w2;
          w4 = (case open_res of
                  Inl open_err \<Rightarrow> failed (Fprintf_Stderr (Error open_err) w3)
                | Inr f \<Rightarrow> w3);
          originalf = (case open_res of Inl e \<Rightarrow> None | Inr f \<Rightarrow> Some f);
          (copy_res, w5) = io_Copy copyf originalf w4
      in case copy_res of
           Some copy_err \<Rightarrow>
             failed (Fprintf_Stderr (Error copy_err)
               (Fprintf_Stderr (''An error occurred during the copy of '' @ oldname @ '' to '' @ newname @ ''\<newline>'') w5))
         | None \<Rightarrow> Fprintf_Stdout (''Copying '' @ oldname @ '' to '' @ newname @ ''\<newline>'') w5)"

definition renameFile :: "string \<Rightarrow> string \<Rightarrow> world \<Rightarrow> world" where
  "renameFile oldname newname w =
     (let (rename_res, w1) = os_Rename oldname newname w
      in case rename_res of
           Some rename_err \<Rightarrow>
             failed (Fprintf_Stderr (Error rename_err)
               (Fprintf_Stderr (''An error occurred during the renaming of '' @ oldname @ '' to '' @ newname @ ''\<newline>'') w1))
         | None \<Rightarrow> Fprintf_Stdout (''Renaming '' @ oldname @ '' to '' @ newname @ ''\<newline>'') w1)"

definition writeFile :: "flags \<Rightarrow> string \<Rightarrow> string \<Rightarrow> world \<Rightarrow> world" where
  "writeFile cfg oldname newname w =
     (let w1 = overwriteGuard cfg newname w
      in if dryrunArg cfg
         then Fprintf_Stdout (''Renaming '' @ oldname @ '' to '' @ newname @ '' (dry-run)\<newline>'') w1
         else if copyArg cfg then copyFile oldname newname w1
         else renameFile oldname newname w1)"

definition addPrefix :: "flags \<Rightarrow> string list \<Rightarrow> string \<Rightarrow> world \<Rightarrow> go_int \<times> world" where
  "addPrefix cfg names pre w =
     (0, foldl (\<lambda>w f.
            let dirname = Dir f;
                finalname = Join [dirname, pre @ Base f]
            in writeFile cfg f finalname w) w names)"

definition addSuffix :: "flags \<Rightarrow> string list \<Rightarrow> string \<Rightarrow> world \<Rightarrow> go_int \<times> world" where
  "addSuffix cfg names suf w =
     (0, foldl (\<lambda>w f.
            let ext = Ext f;
                dirname = Dir f;
                justname = TrimSuffix (Base f) ext;
                finalname = Join [dirname, justname @ suf @ ext]
            in writeFile cfg f finalname w) w names)"

text \<open>The loop of \<open>indexName\<close>; \<open>count++\<close> wraps around at 64 bits.\<close>

fun indexLoop :: "flags \<Rightarrow> string \<Rightarrow> string list \<Rightarrow> go_int \<Rightarrow> world \<Rightarrow> world" where
  "indexLoop cfg newname [] count w = w"
| "indexLoop cfg newname (f # fs) count w =
     (let ext = Ext f;
          dirname = Dir f;
          finalname = dirname @ ''/'' @ newname @ fmt03d count @ ext
      in indexLoop cfg newname fs (count + 1) (writeFile cfg f finalname w))"

definition indexName :: "flags \<Rightarrow> string list \<Rightarrow> string \<Rightarrow> go_int \<Rightarrow> world \<Rightarrow> go_int \<times> world" where
  "indexName cfg names newname count w = (0, indexLoop cfg newname names count w)"

definition lowercaseExtension :: "revision \<Rightarrow> flags \<Rightarrow> string list \<Rightarrow> world \<Rightarrow> go_int \<times> world" where
  "lowercaseExtension rv cfg names w =
     (0, foldl (\<lambda>w f.
            let dirname = Dir f;
                basename = Base f;
                ext = Ext f;
                finalname = Join [dirname, TrimSuffix basename ext @ ToLower (TrimSuffix ext basename)]
            in case rv of
                 Renamer_go \<Rightarrow> w
               | Later_revision \<Rightarrow> writeFile cfg f finalname w) w names)"

definition lowercaseFiles :: "flags \<Rightarrow> string list \<Rightarrow> world \<Rightarrow> go_int \<times> world" where
  "lowercaseFiles cfg names w =
     (0, foldl (\<lambda>w f.
            let dirname = Dir f;
                finalname = Join [dirname, ToLower (Base f)]
            in writeFile cfg f finalname w) w names)"

definition uppercaseFiles :: "flags \<Rightarrow> string list \<Rightarrow> world \<Rightarrow> go_int \<times> world" where
  "uppercaseFiles cfg names w =
     (0, foldl (\<lambda>w f.
            let dirname = Dir f;
                finalname = Join [dirname, ToUpper (Base f)]
            in writeFile cfg f finalname w) w names)"

text \<open>
  \<open>getFilesFromDir\<close> returns the directories and the files of one directory. The
  error of \<open>filepath.Abs\<close> (no working directory) is not modelled.
\<close>

definition getFilesFromDir :: "string \<Rightarrow> world \<Rightarrow> (string list \<times> string list) \<times> world" where
  "getFilesFromDir dirname w =
     (let (lstat_res, w1) = os_Lstat dirname w
      in case lstat_res of
           Inl lerr \<Rightarrow> (([], []), Fprintf_Stderr (Error lerr) w1)
         | Inr isDir \<Rightarrow>
             (let complete_path = (if IsAbs dirname \<and> isDir then dirname else Abs (cwd w1) dirname);
                  (open_res, w2) = os_Open complete_path w1
              in case open_res of
                   Inl err \<Rightarrow>
                     (([], []),
                      Fprintf_Stderr (''Target directory '' @ complete_path
                         @ '' is not a directory or can't be accessed\<newline>'') w2)
                 | Inr dir \<Rightarrow>
                     (let (read_res, w3) = Readdir dir w2
                      in case read_res of
                           Inl read_err \<Rightarrow> (([], []), Fprintf_Stderr (Error read_err) w3)
                         | Inr filesindir \<Rightarrow>
                             ((map (\<lambda>(name, d). Join [complete_path, name]) (filter (\<lambda>(name, d). d) filesindir),
                               map (\<lambda>(name, d). Join [complete_path, name]) (filter (\<lambda>(name, d). \<not> d) filesindir)),
                              w3))))"

text \<open>
  The loop \<open>for _, d := range dir\<close> of \<open>renameFiles\<close>. Go evaluates the range
  expression once, before the loop: the first argument is the slice as it was then, the
  pair holds the variables \<open>dir\<close> and \<open>files\<close> that the body appends to.
\<close>

fun rangeDir :: "string list \<Rightarrow> string list \<times> string list \<Rightarrow> world \<Rightarrow> (string list \<times> string list) \<times> world" where
  "rangeDir [] (dir, files) w = ((dir, files), w)"
| "rangeDir (d # ds) (dir, files) w =
     (let ((nd, nf), w1) = getFilesFromDir d w
      in rangeDir ds (dir @ nd, files @ nf) w1)"

text \<open>
  The loop over \<open>files\<close> that collects \<open>matchingfiles\<close>. The regular expressions of
  package \<open>regexp\<close> are a parameter: \<open>Compile\<close> gives, for a pattern that is valid, the
  set of strings that \<open>MatchString\<close> accepts.
\<close>

fun rangeFiles ::
  "revision \<Rightarrow> (string \<Rightarrow> (string \<Rightarrow> bool) option) \<Rightarrow> flags \<Rightarrow> string list \<Rightarrow> string list \<Rightarrow> world
     \<Rightarrow> string list outcome" where
  "rangeFiles rv Compile cfg [] matchingfiles w = Return matchingfiles w"
| "rangeFiles rv Compile cfg (f # fs) matchingfiles w =
     (let basename = Base f
      in case Compile (regexpArg cfg) of
           None \<Rightarrow>
             printUsage ''You must give a valid regexp (or none, to operate on all files). Alternatively, add -force to force renaming all files, whether they match the regexp or not''
               (Fprintf_Stderr (''Invalid regexp: '' @ regexpArg cfg @ ''\<newline>'') w)
         | Some MatchString \<Rightarrow>
             (case rv of
                Renamer_go \<Rightarrow>
                  if MatchString basename = False
                  then rangeFiles rv Compile cfg fs matchingfiles w
                  else rangeFiles rv Compile cfg fs (matchingfiles @ [f]) w
              | Later_revision \<Rightarrow> rangeFiles rv Compile cfg fs matchingfiles w))"

text \<open>The transformations of \<open>renameFiles\<close>, from \<open>if prefixArg != ""\<close> on.\<close>

definition transformations :: "revision \<Rightarrow> flags \<Rightarrow> string list \<Rightarrow> world \<Rightarrow> go_int outcome" where
  "transformations rv cfg files w =
     (let (result, w) = (0, w);
          (result, w) = (if prefixArg cfg \<noteq> [] then addPrefix cfg files (prefixArg cfg) w else (result, w));
          (result, w) = (if suffixArg cfg \<noteq> [] then addSuffix cfg files (suffixArg cfg) w else (result, w));
          (result, w) = (if indexArg cfg \<noteq> [] then indexName cfg files (indexArg cfg) (numArg cfg) w else (result, w))
      in if lowerArg cfg = True \<and> upperArg cfg = True
         then printUsage ''Can't use both lowercase and uppercase, choose one only!'' w
         else
           (let (result, w) = (if lowerExtArg cfg = True then lowercaseExtension rv cfg files w else (result, w));
                (result, w) = (if lowerArg cfg = True then lowercaseFiles cfg files w else (result, w));
                (result, w) = (if upperArg cfg = True then uppercaseFiles cfg files w else (result, w))
            in Return result w))"

text \<open>
  The first block of \<open>renameFiles\<close>. The test \<open>dir != nil\<close> is left out: the loop
  over a nil slice has no iteration, so the test changes nothing.
\<close>

definition traverse ::
  "flags \<Rightarrow> string list \<Rightarrow> string list \<Rightarrow> world \<Rightarrow> (string list \<times> string list) \<times> world" where
  "traverse cfg dir files w =
     (if recursiveArg cfg = True then rangeDir dir (dir, files) w else ((dir, files), w))"

definition renameFiles ::
  "revision \<Rightarrow> (string \<Rightarrow> (string \<Rightarrow> bool) option) \<Rightarrow> flags \<Rightarrow> string list \<Rightarrow> string list \<Rightarrow> world
     \<Rightarrow> go_int outcome" where
  "renameFiles rv Compile cfg dir files w =
     (let ((dir, files), w) = traverse cfg dir files w
      in andThen
           (if regexpArg cfg \<noteq> [] then rangeFiles rv Compile cfg files [] w else Return [] w)
           (\<lambda>matchingfiles w.
              if length matchingfiles \<ge> 1 then transformations rv cfg matchingfiles w
              else if regexpArg cfg \<noteq> [] then
                (if forceArg cfg
                 then transformations rv cfg files
                        (Fprintf_Stdout ''No files matched, including all files anyway (-force enabled)\<newline>'' w)
                 else Return 1
                        (Fprintf_Stderr ''No files matched, check the correctness of your regexp\<newline>'' w))
              else transformations rv cfg files w))"

text \<open>The end of \<open>main\<close>: the message that tells whether everything went smoothly.\<close>

definition verdict :: "go_int \<Rightarrow> world \<Rightarrow> unit outcome" where
  "verdict success_rename w =
     (if success_rename = 0 \<and> operationSuccessful w = 0
      then Return () (Fprintf_Stdout ''\<newline>Renaming complete\<newline>'' w)
      else Return () (Fprintf_Stdout ''\<newline>Not all files were correctly renamed, check the previous error messages'' w))"

definition main :: "revision \<Rightarrow> (string \<Rightarrow> (string \<Rightarrow> bool) option) \<Rightarrow> flags \<Rightarrow> world \<Rightarrow> unit outcome" where
  "main rv Compile cfg w =
     andThen (flagsInit cfg w)
       (\<lambda>u w.
          let ((directories, files), w) = getFilesFromDir (targetArg cfg) w
          in andThen (renameFiles rv Compile cfg directories files w) verdict)"

text \<open>The status with which the process ends, and the state it leaves.\<close>

definition exitStatus :: "'a outcome \<Rightarrow> int" where
  "exitStatus r = (case r of Exit c w \<Rightarrow> c | Return a w \<Rightarrow> 0)"

definition finalWorld :: "'a outcome \<Rightarrow> world" where
  "finalWorld r = (case r of Exit c w \<Rightarrow> w | Return a w \<Rightarrow> w)"

section \<open>Examples\<close>

text \<open>
  A stand-in for package \<open>regexp\<close> in the examples. On a pattern of ASCII letters and
  digits it is what Go does: the pattern is valid and matches the strings in which it
  occurs. Every other pattern is rejected here; the examples use only \<open>(\<close>, which Go
  rejects too.
\<close>

fun occursIn :: "string \<Rightarrow> string \<Rightarrow> bool" where
  "occursIn p [] = (p = [])"
| "occursIn p (c # cs) = (prefix p (c # cs) \<or> occursIn p cs)"

definition literalCompile :: "string \<Rightarrow> (string \<Rightarrow> bool) option" where
  "literalCompile p =
     (if list_all (\<lambda>c. c \<in> set ''abcdefghijklmnopqrstuvwxyzABCDEFGHIJKLMNOPQRSTUVWXYZ0123456789'') p
      then Some (occursIn p)
      else None)"

text \<open>The flags when no argument is given.\<close>

definition defaults :: flags where
  "defaults =
     \<lparr>regexpArg = [], prefixArg = [], suffixArg = [], indexArg = [], numArg = 1,
      targetArg = ''.'', lowerExtArg = False, lowerArg = False, upperArg = False,
      copyArg = False, dryrunArg = False, forceArg = False, recursiveArg = False\<rparr>"

text \<open>
  A tree three levels deep below \<open>/r\<close>, with one file at each level, and an empty
  directory \<open>/e\<close>.
\<close>

definition deepTree :: node where
  "deepTree =
     Directory
       [(''r'', Directory
          [(''top.txt'', File ''t''),
           (''a'', Directory
              [(''mid.txt'', File ''m''),
               (''b'', Directory [(''c.txt'', File ''c'')])])]),
        (''e'', Directory [])]"

definition start :: "node \<Rightarrow> string \<Rightarrow> world" where
  "start fs wd = \<lparr>root = fs, cwd = wd, trace = [], operationSuccessful = 0\<rparr>"

section \<open>Auxiliary notions\<close>

text \<open>Two states with the same files: the tree and the working directory agree.\<close>

definition sameFiles :: "world \<Rightarrow> world \<Rightarrow> bool" where
  "sameFiles v w = (root v = root w \<and> cwd v = cwd w)"

text \<open>
  The state after the prefix, suffix and index transformations that are selected, and
  after the three case transformations that are selected.
\<close>

definition afterNaming :: "flags \<Rightarrow> string list \<Rightarrow> world \<Rightarrow> world" where
  "afterNaming cfg files w =
     (let w1 = (if prefixArg cfg \<noteq> [] then snd (addPrefix cfg files (prefixArg cfg) w) else w);
          w2 = (if suffixArg cfg \<noteq> [] then snd (addSuffix cfg files (suffixArg cfg) w1) else w1)
      in if indexArg cfg \<noteq> [] then snd (indexName cfg files (indexArg cfg) (numArg cfg) w2) else w2)"

definition afterCase :: "revision \<Rightarrow> flags \<Rightarrow> string list \<Rightarrow> world \<Rightarrow> world" where
  "afterCase rv cfg files w =
     (let w1 = (if lowerExtArg cfg then snd (lowercaseExtension rv cfg files w) else w);
          w2 = (if lowerArg cfg then snd (lowercaseFiles cfg files w1) else w1)
      in if upperArg cfg then snd (uppercaseFiles cfg files w2) else w2)"

text \<open>The trees that two of the example runs leave.\<close>

definition renamedTree :: node where
  "renamedTree =
     Directory
       [(''r'', Directory
          [(''top.txt'', File ''t''),
           (''a'', Directory
              [(''mid.txt'', File ''m''),
               (''b'', Directory [(''pc.txt'', File ''c'')])])]),
        (''e'', Directory [])]"

definition caseTree :: node where
  "caseTree = Directory [(''d'', Directory [(''MyFile.TXT'', File ''x'')])]"

definition lowercasedTree :: node where
  "lowercasedTree = Directory [(''d'', Directory [(''MyFile.txt'', File ''x'')])]"

section \<open>What the system calls leave unchanged\<close>

text \<open>
  The trace and the counter play no part in what a system call does to the files: two
  states with the same tree and working directory stay so under the same call.
\<close>

lemma emit_sel [simp]:
  "root (emit e w) = root w"
  "cwd (emit e w) = cwd w"
  "operationSuccessful (emit e w) = operationSuccessful w"
  "trace (emit e w) = trace w @ [e]"
  by (simp_all add: emit_def)

lemma failed_sel [simp]:
  "root (failed w) = root w"
  "cwd (failed w) = cwd w"
  "operationSuccessful (failed w) = operationSuccessful w + 1"
  "trace (failed w) = trace w"
  by (simp_all add: failed_def)

lemma Fprintf_sel [simp]:
  "root (Fprintf_Stdout s w) = root w"
  "cwd (Fprintf_Stdout s w) = cwd w"
  "operationSuccessful (Fprintf_Stdout s w) = operationSuccessful w"
  "trace (Fprintf_Stdout s w) = trace w @ [Stdout s]"
  "root (Fprintf_Stderr s w) = root w"
  "cwd (Fprintf_Stderr s w) = cwd w"
  "operationSuccessful (Fprintf_Stderr s w) = operationSuccessful w"
  "trace (Fprintf_Stderr s w) = trace w @ [Stderr s]"
  by (simp_all add: Fprintf_Stdout_def Fprintf_Stderr_def)

lemma sameFiles_refl [simp]: "sameFiles w w"
  by (simp add: sameFiles_def)

lemma sameFiles_stat: "sameFiles v w \<Longrightarrow> stat v name = stat w name"
  by (simp add: sameFiles_def stat_def elements_def)

lemma sameFiles_elements: "sameFiles v w \<Longrightarrow> elements v name = elements w name"
  by (simp add: sameFiles_def elements_def)

lemma os_Lstat_snd [simp]: "snd (os_Lstat name w) = emit (Sys (SysLstat name)) w"
  by (simp add: os_Lstat_def)

lemma os_Lstat_fst: "fst (os_Lstat name w) = Inr d \<longleftrightarrow> (\<exists>n. stat w name = Some n \<and> d = isDirectory n)"
  by (auto simp: os_Lstat_def split: option.splits)

lemma os_Rename_root:
  assumes "sameFiles v w"
  shows "fst (os_Rename old new v) = fst (os_Rename old new w)"
    and "sameFiles (snd (os_Rename old new v)) (snd (os_Rename old new w))"
  using assms sameFiles_stat [OF assms] sameFiles_elements [OF assms]
  by (auto simp: os_Rename_def sameFiles_def Let_def split: option.splits node.splits)


lemma os_Rename_sel [simp]:
  "operationSuccessful (snd (os_Rename old new w)) = operationSuccessful w"
  "cwd (snd (os_Rename old new w)) = cwd w"
  "trace (snd (os_Rename old new w)) = trace w @ [Sys (SysRename old new)]"
  by (auto simp: os_Rename_def Let_def split: option.splits node.splits)

lemma os_Create_sel [simp]:
  "operationSuccessful (snd (os_Create name w)) = operationSuccessful w"
  "cwd (snd (os_Create name w)) = cwd w"
  "trace (snd (os_Create name w)) = trace w @ [Sys (SysCreate name)]"
  by (auto simp: os_Create_def Let_def split: option.splits node.splits)

lemma os_Open_snd [simp]: "snd (os_Open name w) = emit (Sys (SysOpen name)) w"
  by (simp add: os_Open_def)

lemma Readdir_snd [simp]: "snd (Readdir name w) = emit (Sys (SysReaddir name)) w"
  by (simp add: Readdir_def)

lemma io_Copy_sel [simp]:
  "operationSuccessful (snd (io_Copy dst src w)) = operationSuccessful w"
  "cwd (snd (io_Copy dst src w)) = cwd w"
  "trace (snd (io_Copy dst src w)) = trace w @ [Sys (SysCopy dst src)]"
  by (auto simp: io_Copy_def Let_def split: option.splits node.splits)

lemma os_Create_root:
  assumes "sameFiles v w"
  shows "fst (os_Create name v) = fst (os_Create name w)"
    and "sameFiles (snd (os_Create name v)) (snd (os_Create name w))"
  using assms sameFiles_elements [OF assms]
  by (auto simp: os_Create_def sameFiles_def Let_def split: option.splits node.splits)

lemma os_Open_root:
  assumes "sameFiles v w"
  shows "fst (os_Open name v) = fst (os_Open name w)"
  using assms sameFiles_stat [OF assms] sameFiles_elements [OF assms]
  by (auto simp: os_Open_def sameFiles_def split: option.splits)

lemma io_Copy_root:
  assumes "sameFiles v w"
  shows "fst (io_Copy dst src v) = fst (io_Copy dst src w)"
    and "sameFiles (snd (io_Copy dst src v)) (snd (io_Copy dst src w))"
  using assms sameFiles_stat [OF assms] sameFiles_elements [OF assms]
  by (auto simp: io_Copy_def sameFiles_def Let_def split: option.splits node.splits)

lemma sameFiles_emit [simp]:
  "sameFiles (emit e v) w = sameFiles v w"
  "sameFiles v (emit e w) = sameFiles v w"
  by (simp_all add: sameFiles_def)

lemma sameFiles_failed [simp]:
  "sameFiles (failed v) w = sameFiles v w"
  "sameFiles v (failed w) = sameFiles v w"
  by (simp_all add: sameFiles_def)

lemma sameFiles_Fprintf [simp]:
  "sameFiles (Fprintf_Stdout s v) w = sameFiles v w"
  "sameFiles v (Fprintf_Stdout s w) = sameFiles v w"
  "sameFiles (Fprintf_Stderr s v) w = sameFiles v w"
  "sameFiles v (Fprintf_Stderr s w) = sameFiles v w"
  by (simp_all add: sameFiles_def)

lemma renameFile_root:
  assumes "sameFiles v w"
  shows "sameFiles (renameFile old new v) (renameFile old new w)"
  using os_Rename_root [OF assms, of old new]
  by (simp add: renameFile_def split_beta split: option.splits)

lemma os_Open_same:
  assumes "sameFiles v w"
  shows "sameFiles (snd (os_Open name v)) (snd (os_Open name w))"
  using assms by simp

lemma copyFile_root:
  assumes "sameFiles v w"
  shows "sameFiles (copyFile old new v) (copyFile old new w)"
proof -
  obtain cr v1 where cv: "os_Create new v = (cr, v1)" by force
  obtain cr' w1 where cw: "os_Create new w = (cr', w1)" by force
  from os_Create_root [OF assms, of new] cv cw
  have cr: "cr' = cr" and s1: "sameFiles v1 w1" by simp_all
  define v2 where "v2 = (case cr of Inl e \<Rightarrow> failed (Fprintf_Stderr (Error e) v1) | Inr f \<Rightarrow> v1)"
  define w2 where "w2 = (case cr of Inl e \<Rightarrow> failed (Fprintf_Stderr (Error e) w1) | Inr f \<Rightarrow> w1)"
  have s2: "sameFiles v2 w2"
    using s1 by (simp add: v2_def w2_def split: sum.splits)
  obtain op v3 where ov: "os_Open old v2 = (op, v3)" by force
  obtain op' w3 where ow: "os_Open old w2 = (op', w3)" by force
  from os_Open_root [OF s2, of old] os_Open_same [OF s2, of old] ov ow
  have op: "op' = op" and s3: "sameFiles v3 w3" by simp_all
  define v4 where "v4 = (case op of Inl e \<Rightarrow> failed (Fprintf_Stderr (Error e) v3) | Inr f \<Rightarrow> v3)"
  define w4 where "w4 = (case op of Inl e \<Rightarrow> failed (Fprintf_Stderr (Error e) w3) | Inr f \<Rightarrow> w3)"
  have s4: "sameFiles v4 w4"
    using s3 by (simp add: v4_def w4_def split: sum.splits)
  define dst where "dst = (case cr of Inl e \<Rightarrow> None | Inr f \<Rightarrow> Some f)"
  define src where "src = (case op of Inl e \<Rightarrow> None | Inr f \<Rightarrow> Some f)"
  obtain cp v5 where pv: "io_Copy dst src v4 = (cp, v5)" by force
  obtain cp' w5 where pw: "io_Copy dst src w4 = (cp', w5)" by force
  from io_Copy_root [OF s4, of dst src] pv pw
  have cp: "cp' = cp" and s5: "sameFiles v5 w5" by simp_all
  have "copyFile old new v =
      (case cp of
         Some e \<Rightarrow> failed (Fprintf_Stderr (Error e)
           (Fprintf_Stderr (''An error occurred during the copy of '' @ old @ '' to '' @ new @ ''\<newline>'') v5))
       | None \<Rightarrow> Fprintf_Stdout (''Copying '' @ old @ '' to '' @ new @ ''\<newline>'') v5)"
    unfolding copyFile_def cv Let_def prod.case v2_def [symmetric] ov dst_def [symmetric]
      v4_def [symmetric] src_def [symmetric] pv ..
  moreover have "copyFile old new w =
      (case cp of
         Some e \<Rightarrow> failed (Fprintf_Stderr (Error e)
           (Fprintf_Stderr (''An error occurred during the copy of '' @ old @ '' to '' @ new @ ''\<newline>'') w5))
       | None \<Rightarrow> Fprintf_Stdout (''Copying '' @ old @ '' to '' @ new @ ''\<newline>'') w5)"
    unfolding copyFile_def cw cr Let_def prod.case w2_def [symmetric] ow op dst_def [symmetric]
      w4_def [symmetric] src_def [symmetric] pw cp ..
  ultimately show ?thesis
    using s5 by (simp split: option.splits)
qed

lemma renameFile_count:
  "operationSuccessful (renameFile old new w) \<in> {operationSuccessful w, operationSuccessful w + 1}"
  by (simp add: renameFile_def split_beta split: option.splits)

lemma copyFile_count:
  "operationSuccessful (copyFile old new w) \<in>
     {operationSuccessful w, operationSuccessful w + 1, operationSuccessful w + 2, operationSuccessful w + 3}"
  by (simp add: copyFile_def split_beta Let_def split: option.splits sum.splits)

lemma renameFile_trace:
  "Sys (SysRename old new) \<in> set (trace (renameFile old new w))"
  by (simp add: renameFile_def split_beta split: option.splits)

lemma copyFile_trace:
  "Sys (SysCreate new) \<in> set (trace (copyFile old new w))"
  by (simp add: copyFile_def split_beta Let_def split: option.splits sum.splits)

lemma overwriteGuard_same [simp]:
  "sameFiles (overwriteGuard cfg new w) v = sameFiles w v"
  "sameFiles v (overwriteGuard cfg new w) = sameFiles v w"
  by (simp_all add: overwriteGuard_def split_beta Let_def)

lemma overwriteGuard_sel [simp]:
  "root (overwriteGuard cfg new w) = root w"
  "cwd (overwriteGuard cfg new w) = cwd w"
  by (simp_all add: overwriteGuard_def split_beta Let_def)

lemma sint_add_small:
  fixes c :: "64 word"
  assumes "0 \<le> sint c" and "sint c < 2 ^ 62"
  shows "sint (c + 1) = sint c + 1" and "sint (c + 2) = sint c + 2"
    and "sint (c + 3) = sint c + 3" and "sint (c + 4) = sint c + 4"
  using assms by (simp_all add: sint_word_ariths signed_take_bit_int_eq_self)

lemma writeFile_count:
  "operationSuccessful (writeFile cfg oldname newname w) \<in>
     {operationSuccessful (overwriteGuard cfg newname w),
      operationSuccessful (overwriteGuard cfg newname w) + 1,
      operationSuccessful (overwriteGuard cfg newname w) + 2,
      operationSuccessful (overwriteGuard cfg newname w) + 3}"
  using renameFile_count [of oldname newname "overwriteGuard cfg newname w"]
    copyFile_count [of oldname newname "overwriteGuard cfg newname w"]
  by (auto simp: writeFile_def Let_def)

lemma writeFile_rename_root:
  assumes "dryrunArg cfg = False" and "copyArg cfg = False"
  shows "root (writeFile cfg oldname newname w) = root (snd (os_Rename oldname newname w))"
proof -
  have "sameFiles (overwriteGuard cfg newname w) w" by simp
  from renameFile_root [OF this, of oldname newname]
  have "root (writeFile cfg oldname newname w) = root (renameFile oldname newname w)"
    using assms by (simp add: writeFile_def Let_def sameFiles_def)
  then show ?thesis
    by (simp add: renameFile_def split_beta split: option.splits)
qed

lemma writeFile_copy_root:
  assumes "dryrunArg cfg = False" and "copyArg cfg = True"
  shows "root (writeFile cfg oldname newname w) = root (copyFile oldname newname w)"
proof -
  have "sameFiles (overwriteGuard cfg newname w) w" by simp
  from copyFile_root [OF this, of oldname newname]
  show ?thesis
    using assms by (simp add: writeFile_def Let_def sameFiles_def)
qed

section \<open>The stages of \<open>renameFiles\<close>\<close>

lemma getFilesFromDir_sel [simp]:
  "root (snd (getFilesFromDir d w)) = root w"
  "cwd (snd (getFilesFromDir d w)) = cwd w"
  "operationSuccessful (snd (getFilesFromDir d w)) = operationSuccessful w"
  by (simp_all add: getFilesFromDir_def split_beta Let_def split: sum.splits)

lemma rangeDir_frame:
  "root (snd (rangeDir ds acc w)) = root w
   \<and> cwd (snd (rangeDir ds acc w)) = cwd w
   \<and> operationSuccessful (snd (rangeDir ds acc w)) = operationSuccessful w"
proof (induction ds acc w rule: rangeDir.induct)
  case (1 dir files w)
  show ?case by simp
next
  case (2 d ds dir files w)
  obtain nd nf w1 where g: "getFilesFromDir d w = ((nd, nf), w1)"
    by (metis prod.exhaust)
  have "root w1 = root w" "cwd w1 = cwd w" "operationSuccessful w1 = operationSuccessful w"
    using getFilesFromDir_sel [of d w] by (simp_all add: g)
  with 2 [OF g [symmetric] refl] show ?case
    by (simp add: g)
qed

lemma rangeDir_sel [simp]:
  "root (snd (rangeDir ds acc w)) = root w"
  "cwd (snd (rangeDir ds acc w)) = cwd w"
  "operationSuccessful (snd (rangeDir ds acc w)) = operationSuccessful w"
  using rangeDir_frame [of ds acc w] by simp_all

lemma traverse_sel [simp]:
  "root (snd (traverse cfg dir files w)) = root w"
  "cwd (snd (traverse cfg dir files w)) = cwd w"
  "operationSuccessful (snd (traverse cfg dir files w)) = operationSuccessful w"
  by (simp_all add: traverse_def)

lemma rangeFiles_Renamer_go:
  assumes "Compile (regexpArg cfg) = Some P"
  shows "rangeFiles Renamer_go Compile cfg L acc w = Return (acc @ filter (\<lambda>f. P (Base f)) L) w"
  using assms by (induction L arbitrary: acc) (simp_all add: Let_def)

lemma rangeFiles_Later_revision:
  assumes "Compile (regexpArg cfg) = Some P"
  shows "rangeFiles Later_revision Compile cfg L acc w = Return acc w"
  using assms by (induction L arbitrary: acc) (simp_all add: Let_def)

lemma rangeFiles_valid:
  assumes "Compile (regexpArg cfg) = Some P"
  shows "rangeFiles rv Compile cfg L acc w =
     Return (acc @ (case rv of Renamer_go \<Rightarrow> filter (\<lambda>f. P (Base f)) L | Later_revision \<Rightarrow> [])) w"
  using assms by (cases rv) (simp_all add: rangeFiles_Renamer_go rangeFiles_Later_revision)

lemma rangeFiles_invalid:
  assumes "Compile (regexpArg cfg) = None"
  shows "rangeFiles rv Compile cfg L acc w =
     (case L of
        [] \<Rightarrow> Return acc w
      | f # fs \<Rightarrow>
          printUsage ''You must give a valid regexp (or none, to operate on all files). Alternatively, add -force to force renaming all files, whether they match the regexp or not''
            (Fprintf_Stderr (''Invalid regexp: '' @ regexpArg cfg @ ''\<newline>'') w))"
  using assms by (cases L) (simp_all add: Let_def)

lemma transformers_fst [simp]:
  "fst (addPrefix cfg names pre w) = 0"
  "fst (addSuffix cfg names suf w) = 0"
  "fst (indexName cfg names newname count w) = 0"
  "fst (lowercaseExtension rv cfg names w) = 0"
  "fst (lowercaseFiles cfg names w) = 0"
  "fst (uppercaseFiles cfg names w) = 0"
  by (simp_all add: addPrefix_def addSuffix_def indexName_def lowercaseExtension_def
      lowercaseFiles_def uppercaseFiles_def)



lemma transformations_both:
  assumes "lowerArg cfg = True" and "upperArg cfg = True"
  shows "transformations rv cfg files w =
     printUsage (''Can'' @ quote @ ''t use both lowercase and uppercase, choose one only!'')
       (afterNaming cfg files w)"
  using assms
  by (simp add: transformations_def afterNaming_def split_beta Let_def quote_def)


lemma transformations_returns:
  assumes "\<not> (lowerArg cfg = True \<and> upperArg cfg = True)"
  shows "transformations rv cfg files w = Return 0 (afterCase rv cfg files (afterNaming cfg files w))"
proof -
  have "fst (if c then p else (0, v)) = 0" if "fst p = 0" for c and p :: "go_int \<times> world" and v
    using that by simp
  note z = this [OF transformers_fst(1)] this [OF transformers_fst(2)] this [OF transformers_fst(3)]
    this [OF transformers_fst(4)] this [OF transformers_fst(5)] this [OF transformers_fst(6)]
  have nb: "(lowerArg cfg \<and> upperArg cfg) = False"
    using assms by simp
  show ?thesis
    by (simp add: transformations_def afterNaming_def afterCase_def split_beta Let_def z nb
        if_distrib [of snd] if_distrib [of fst] split del: if_split cong: if_cong)
qed

lemma renameFiles_unfold:
  assumes "traverse cfg dir files w = ((dir', L), w1)"
  shows "renameFiles rv Compile cfg dir files w =
     andThen
       (if regexpArg cfg \<noteq> [] then rangeFiles rv Compile cfg L [] w1 else Return [] w1)
       (\<lambda>matchingfiles w.
          if length matchingfiles \<ge> 1 then transformations rv cfg matchingfiles w
          else if regexpArg cfg \<noteq> [] then
            (if forceArg cfg
             then transformations rv cfg L
                    (Fprintf_Stdout ''No files matched, including all files anyway (-force enabled)\<newline>'' w)
             else Return 1
                    (Fprintf_Stderr ''No files matched, check the correctness of your regexp\<newline>'' w))
          else transformations rv cfg L w)"
  by (simp add: renameFiles_def assms)

lemma transformations_after_notice:
  "\<exists>fs w'. transformations rv cfg L (Fprintf_Stdout s w1) = transformations rv cfg fs w'
       \<and> root w' = root w1 \<and> operationSuccessful w' = operationSuccessful w1"
  by (intro exI [of _ L] exI [of _ "Fprintf_Stdout s w1"]) simp

lemma renameFiles_outcomes:
  "(\<exists>fs w'. renameFiles rv Compile cfg dir files w = transformations rv cfg fs w'
       \<and> root w' = root w \<and> operationSuccessful w' = operationSuccessful w)
   \<or> (\<exists>w'. renameFiles rv Compile cfg dir files w = Return 1 w'
       \<and> root w' = root w \<and> operationSuccessful w' = operationSuccessful w
       \<and> regexpArg cfg \<noteq> [] \<and> forceArg cfg = False)
   \<or> (\<exists>w'. renameFiles rv Compile cfg dir files w = Exit 2 w'
       \<and> root w' = root w \<and> operationSuccessful w' = operationSuccessful w
       \<and> regexpArg cfg \<noteq> [] \<and> Compile (regexpArg cfg) = None)"
proof -
  obtain dir' L w1 where t: "traverse cfg dir files w = ((dir', L), w1)"
    by (metis prod.exhaust)
  have w1: "root w1 = root w" "operationSuccessful w1 = operationSuccessful w"
    using traverse_sel [of cfg dir files w] by (simp_all add: t)
  note u = renameFiles_unfold [OF t, of rv Compile]
  show ?thesis
  proof (cases "regexpArg cfg = []")
    case True
    then have "renameFiles rv Compile cfg dir files w = transformations rv cfg L w1"
      by (simp add: u andThen_def)
    with w1 show ?thesis by blast
  next
    case ne: False
    show ?thesis
    proof (cases "Compile (regexpArg cfg)")
      case None
      show ?thesis
      proof (cases L)
        case Nil
        then have "renameFiles rv Compile cfg dir files w =
            (if forceArg cfg
             then transformations rv cfg L
                    (Fprintf_Stdout ''No files matched, including all files anyway (-force enabled)\<newline>'' w1)
             else Return 1
                    (Fprintf_Stderr ''No files matched, check the correctness of your regexp\<newline>'' w1))"
          using ne by (simp add: u andThen_def)
        with w1 ne show ?thesis
          using transformations_after_notice [of rv cfg L _ w1] by (cases "forceArg cfg") simp_all
      next
        case (Cons f fs)
        then have "renameFiles rv Compile cfg dir files w =
            Exit 2 (Fprintf_Stderr usageMessage (Fprintf_Stderr
              (''You must give a valid regexp (or none, to operate on all files). Alternatively, add -force to force renaming all files, whether they match the regexp or not'' @ ''\<newline>'')
              (Fprintf_Stderr (''Invalid regexp: '' @ regexpArg cfg @ ''\<newline>'') w1)))"
          using ne None by (simp add: u andThen_def rangeFiles_invalid printUsage_def Let_def)
        with w1 ne None show ?thesis by simp
      qed
    next
      case (Some P)
      define ms where "ms = (case rv of Renamer_go \<Rightarrow> filter (\<lambda>f. P (Base f)) L | Later_revision \<Rightarrow> [])"
      have r: "rangeFiles rv Compile cfg L [] w1 = Return ms w1"
        using Some by (simp add: rangeFiles_valid [where P = P] ms_def)
      have "renameFiles rv Compile cfg dir files w =
          (if ms \<noteq> [] then transformations rv cfg ms w1
           else if forceArg cfg
             then transformations rv cfg L
                    (Fprintf_Stdout ''No files matched, including all files anyway (-force enabled)\<newline>'' w1)
             else Return 1
                    (Fprintf_Stderr ''No files matched, check the correctness of your regexp\<newline>'' w1))"
        using ne by (cases ms) (simp_all add: u r andThen_def)
      with w1 ne show ?thesis
        using transformations_after_notice [of rv cfg L _ w1]
        by (cases "ms = []"; cases "forceArg cfg") auto
    qed
  qed
qed

section \<open>Evaluation of the examples\<close>

lemmas path_defs =
  Join_def Dir_def Base_def Ext_def Clean_def Abs_def IsAbs_def cleanStep_def lastElem_def
  isSep_def TrimSuffix_def HasSuffix_def ToLower_def ToUpper_def toLowerChar_def toUpperChar_def

lemmas file_defs =
  stat_def elements_def isDirectory_def removeEntry_def strerror_def Error_def
  os_Lstat_def os_Open_def Readdir_def os_Create_def io_Copy_def os_Rename_def
  emit_def Fprintf_Stdout_def Fprintf_Stderr_def failed_def

lemmas program_defs =
  printUsage_def flagsInit_def overwriteGuard_def copyFile_def renameFile_def writeFile_def
  addPrefix_def addSuffix_def indexName_def lowercaseExtension_def lowercaseFiles_def
  uppercaseFiles_def getFilesFromDir_def traverse_def transformations_def renameFiles_def
  verdict_def main_def andThen_def exitStatus_def finalWorld_def

lemmas example_defs = literalCompile_def defaults_def deepTree_def start_def

lemmas run_defs =
  main_def flagsInit_def andThen_def renameFiles_def traverse_def transformations_def verdict_def
  printUsage_def Fprintf_Stdout_def Fprintf_Stderr_def emit_def start_def defaults_def

text \<open>One directory listing of the example trees, from any trace and counter.\<close>

lemma getFilesFromDir_r:
  "getFilesFromDir ''/r'' \<lparr>root = deepTree, cwd = ''/'', trace = t, operationSuccessful = c\<rparr> =
     (([''/r/a''], [''/r/top.txt'']),
      \<lparr>root = deepTree, cwd = ''/'',
       trace = t @ [Sys (SysLstat ''/r''), Sys (SysOpen ''/r''), Sys (SysReaddir ''/r'')],
       operationSuccessful = c\<rparr>)"
  by (simp add: path_defs file_defs getFilesFromDir_def Let_def deepTree_def)

lemma getFilesFromDir_r_a:
  "getFilesFromDir ''/r/a'' \<lparr>root = deepTree, cwd = ''/'', trace = t, operationSuccessful = c\<rparr> =
     (([''/r/a/b''], [''/r/a/mid.txt'']),
      \<lparr>root = deepTree, cwd = ''/'',
       trace = t @ [Sys (SysLstat ''/r/a''), Sys (SysOpen ''/r/a''), Sys (SysReaddir ''/r/a'')],
       operationSuccessful = c\<rparr>)"
  by (simp add: path_defs file_defs getFilesFromDir_def Let_def deepTree_def)

lemma getFilesFromDir_r_a_b:
  "getFilesFromDir ''/r/a/b'' \<lparr>root = deepTree, cwd = ''/'', trace = t, operationSuccessful = c\<rparr> =
     (([], [''/r/a/b/c.txt'']),
      \<lparr>root = deepTree, cwd = ''/'',
       trace = t @ [Sys (SysLstat ''/r/a/b''), Sys (SysOpen ''/r/a/b''), Sys (SysReaddir ''/r/a/b'')],
       operationSuccessful = c\<rparr>)"
  by (simp add: path_defs file_defs getFilesFromDir_def Let_def deepTree_def)

lemma getFilesFromDir_e:
  "getFilesFromDir ''/e'' \<lparr>root = deepTree, cwd = ''/'', trace = t, operationSuccessful = c\<rparr> =
     (([], []),
      \<lparr>root = deepTree, cwd = ''/'',
       trace = t @ [Sys (SysLstat ''/e''), Sys (SysOpen ''/e''), Sys (SysReaddir ''/e'')],
       operationSuccessful = c\<rparr>)"
  by (simp add: path_defs file_defs getFilesFromDir_def Let_def deepTree_def)

lemma getFilesFromDir_d:
  "getFilesFromDir ''/d'' \<lparr>root = caseTree, cwd = ''/'', trace = t, operationSuccessful = c\<rparr> =
     (([], [''/d/MyFile.TXT'']),
      \<lparr>root = caseTree, cwd = ''/'',
       trace = t @ [Sys (SysLstat ''/d''), Sys (SysOpen ''/d''), Sys (SysReaddir ''/d'')],
       operationSuccessful = c\<rparr>)"
  by (simp add: path_defs file_defs getFilesFromDir_def Let_def caseTree_def)

text \<open>The example patterns.\<close>

lemma literalCompile_top: "literalCompile ''top'' = Some (occursIn ''top'')"
  by (simp add: literalCompile_def)

lemma literalCompile_zzz: "literalCompile ''zzz'' = Some (occursIn ''zzz'')"
  by (simp add: literalCompile_def)

lemma literalCompile_paren: "literalCompile ''('' = None"
  by (simp add: literalCompile_def)

lemma occursIn_top: "occursIn ''top'' (Base ''/r/top.txt'')"
  by (simp add: path_defs)

lemma filter_top:
  "filter (\<lambda>f. occursIn ''top'' (Base f)) [''/r/top.txt'', ''/r/a/mid.txt''] = [''/r/top.txt'']"
  by (simp add: path_defs)

lemma no_zzz: "\<forall>f \<in> set [''/r/top.txt'', ''/r/a/mid.txt'']. \<not> occursIn ''zzz'' (Base f)"
  by (simp add: path_defs)

text \<open>The prefix \<open>x_\<close> on two files of the example tree, in a dry run.\<close>

lemma finalname_x:
  "Dir ''/r/top.txt'' = ''/r''"
  "Base ''/r/top.txt'' = ''top.txt''"
  "Join [''/r'', ''x_top.txt''] = ''/r/x_top.txt''"
  "Dir ''/r/a/mid.txt'' = ''/r/a''"
  "Base ''/r/a/mid.txt'' = ''mid.txt''"
  "Join [''/r/a'', ''x_mid.txt''] = ''/r/a/x_mid.txt''"
  by (simp_all add: path_defs)

lemma os_Lstat_x:
  "os_Lstat ''/r/x_top.txt'' \<lparr>root = deepTree, cwd = ''/'', trace = t, operationSuccessful = c\<rparr> =
     (Inl (PathError ''lstat'' ''/r/x_top.txt'' ENOENT),
      \<lparr>root = deepTree, cwd = ''/'', trace = t @ [Sys (SysLstat ''/r/x_top.txt'')],
       operationSuccessful = c\<rparr>)"
  "os_Lstat ''/r/a/x_mid.txt'' \<lparr>root = deepTree, cwd = ''/'', trace = t, operationSuccessful = c\<rparr> =
     (Inl (PathError ''lstat'' ''/r/a/x_mid.txt'' ENOENT),
      \<lparr>root = deepTree, cwd = ''/'', trace = t @ [Sys (SysLstat ''/r/a/x_mid.txt'')],
       operationSuccessful = c\<rparr>)"
  by (simp_all add: os_Lstat_def stat_def elements_def path_defs emit_def deepTree_def)

lemma addPrefix_dry_run:
  "dryrunArg cfg = True \<Longrightarrow>
   addPrefix cfg [''/r/top.txt'', ''/r/a/mid.txt''] ''x_''
     \<lparr>root = deepTree, cwd = ''/'', trace = t, operationSuccessful = c\<rparr> =
     (0, \<lparr>root = deepTree, cwd = ''/'',
          trace = t @ [Sys (SysLstat ''/r/x_top.txt''),
                       Stdout ''Renaming /r/top.txt to /r/x_top.txt (dry-run)\<newline>'',
                       Sys (SysLstat ''/r/a/x_mid.txt''),
                       Stdout ''Renaming /r/a/mid.txt to /r/a/x_mid.txt (dry-run)\<newline>''],
          operationSuccessful = c\<rparr>)"
  by (simp add: addPrefix_def finalname_x writeFile_def overwriteGuard_def os_Lstat_x
      Fprintf_Stdout_def emit_def Let_def)

text \<open>The rename of \<open>/r/a/b/c.txt\<close> with the prefix \<open>p\<close>.\<close>

lemma elements_c_txt:
  "elements \<lparr>root = r, cwd = ''/'', trace = t, operationSuccessful = c\<rparr> ''/r/a/b/c.txt'' =
     [''r'', ''a'', ''b'', ''c.txt'']"
  "elements \<lparr>root = r, cwd = ''/'', trace = t, operationSuccessful = c\<rparr> ''/r/a/b/pc.txt'' =
     [''r'', ''a'', ''b'', ''pc.txt'']"
  by (simp_all add: elements_def path_defs)

lemma finalname_c_txt:
  "Dir ''/r/a/b/c.txt'' = ''/r/a/b''"
  "Base ''/r/a/b/c.txt'' = ''c.txt''"
  "Join [''/r/a/b'', ''pc.txt''] = ''/r/a/b/pc.txt''"
  by (simp_all add: path_defs)

lemma os_Lstat_pc_txt:
  "os_Lstat ''/r/a/b/pc.txt'' \<lparr>root = deepTree, cwd = ''/'', trace = t, operationSuccessful = c\<rparr> =
     (Inl (PathError ''lstat'' ''/r/a/b/pc.txt'' ENOENT),
      \<lparr>root = deepTree, cwd = ''/'', trace = t @ [Sys (SysLstat ''/r/a/b/pc.txt'')],
       operationSuccessful = c\<rparr>)"
  by (simp add: os_Lstat_def stat_def elements_c_txt emit_def deepTree_def)

lemma os_Rename_c_txt:
  "os_Rename ''/r/a/b/c.txt'' ''/r/a/b/pc.txt''
     \<lparr>root = deepTree, cwd = ''/'', trace = t, operationSuccessful = c\<rparr> =
     (None,
      \<lparr>root = renamedTree, cwd = ''/'',
       trace = t @ [Sys (SysRename ''/r/a/b/c.txt'' ''/r/a/b/pc.txt'')], operationSuccessful = c\<rparr>)"
  by (simp add: os_Rename_def stat_def isDirectory_def elements_c_txt emit_def Let_def removeEntry_def
      deepTree_def renamedTree_def)

lemma addPrefix_c_txt:
  "forceArg cfg = False \<Longrightarrow> dryrunArg cfg = False \<Longrightarrow> copyArg cfg = False \<Longrightarrow>
   addPrefix cfg [''/r/a/b/c.txt''] ''p'' \<lparr>root = deepTree, cwd = ''/'', trace = t, operationSuccessful = c\<rparr> =
     (0, \<lparr>root = renamedTree, cwd = ''/'',
          trace = t @ [Sys (SysLstat ''/r/a/b/pc.txt''), Sys (SysRename ''/r/a/b/c.txt'' ''/r/a/b/pc.txt''),
                       Stdout ''Renaming /r/a/b/c.txt to /r/a/b/pc.txt\<newline>''],
          operationSuccessful = c\<rparr>)"
  by (simp add: addPrefix_def finalname_c_txt writeFile_def overwriteGuard_def renameFile_def
      os_Lstat_pc_txt os_Rename_c_txt Fprintf_Stdout_def emit_def Let_def)

text \<open>The rename of \<open>/d/MyFile.TXT\<close> to its name with the extension in lower case.\<close>

lemma elements_MyFile:
  "elements \<lparr>root = r, cwd = ''/'', trace = t, operationSuccessful = c\<rparr> ''/d/MyFile.TXT'' =
     [''d'', ''MyFile.TXT'']"
  "elements \<lparr>root = r, cwd = ''/'', trace = t, operationSuccessful = c\<rparr> ''/d/MyFile.txt'' =
     [''d'', ''MyFile.txt'']"
  by (simp_all add: elements_def path_defs)

lemma finalname_MyFile:
  "Join [Dir ''/d/MyFile.TXT'',
     TrimSuffix (Base ''/d/MyFile.TXT'') (Ext ''/d/MyFile.TXT'')
       @ ToLower (TrimSuffix (Ext ''/d/MyFile.TXT'') (Base ''/d/MyFile.TXT''))] = ''/d/MyFile.txt''"
  by (simp add: path_defs)

lemma os_Lstat_MyFile:
  "os_Lstat ''/d/MyFile.txt'' \<lparr>root = caseTree, cwd = ''/'', trace = t, operationSuccessful = c\<rparr> =
     (Inl (PathError ''lstat'' ''/d/MyFile.txt'' ENOENT),
      \<lparr>root = caseTree, cwd = ''/'', trace = t @ [Sys (SysLstat ''/d/MyFile.txt'')], operationSuccessful = c\<rparr>)"
  by (simp add: os_Lstat_def stat_def elements_MyFile emit_def caseTree_def)

lemma os_Rename_MyFile:
  "os_Rename ''/d/MyFile.TXT'' ''/d/MyFile.txt'' \<lparr>root = caseTree, cwd = ''/'', trace = t, operationSuccessful = c\<rparr> =
     (None,
      \<lparr>root = lowercasedTree, cwd = ''/'',
       trace = t @ [Sys (SysRename ''/d/MyFile.TXT'' ''/d/MyFile.txt'')], operationSuccessful = c\<rparr>)"
  by (simp add: os_Rename_def stat_def isDirectory_def elements_MyFile emit_def Let_def removeEntry_def
      caseTree_def lowercasedTree_def)

lemma writeFile_MyFile:
  "forceArg cfg = False \<Longrightarrow> dryrunArg cfg = False \<Longrightarrow> copyArg cfg = False \<Longrightarrow>
   writeFile cfg ''/d/MyFile.TXT'' ''/d/MyFile.txt''
     \<lparr>root = caseTree, cwd = ''/'', trace = t, operationSuccessful = c\<rparr> =
     \<lparr>root = lowercasedTree, cwd = ''/'',
      trace = t @ [Sys (SysLstat ''/d/MyFile.txt''), Sys (SysRename ''/d/MyFile.TXT'' ''/d/MyFile.txt''),
                   Stdout ''Renaming /d/MyFile.TXT to /d/MyFile.txt\<newline>''],
      operationSuccessful = c\<rparr>"
  by (simp add: writeFile_def overwriteGuard_def renameFile_def os_Lstat_MyFile os_Rename_MyFile
      Fprintf_Stdout_def emit_def)

lemma lowercaseExtension_MyFile:
  "forceArg cfg = False \<Longrightarrow> dryrunArg cfg = False \<Longrightarrow> copyArg cfg = False \<Longrightarrow>
   lowercaseExtension Later_revision cfg [''/d/MyFile.TXT'']
     \<lparr>root = caseTree, cwd = ''/'', trace = t, operationSuccessful = c\<rparr> =
     (0, \<lparr>root = lowercasedTree, cwd = ''/'',
          trace = t @ [Sys (SysLstat ''/d/MyFile.txt''), Sys (SysRename ''/d/MyFile.TXT'' ''/d/MyFile.txt''),
                       Stdout ''Renaming /d/MyFile.TXT to /d/MyFile.txt\<newline>''],
          operationSuccessful = c\<rparr>)"
  by (simp add: lowercaseExtension_def finalname_MyFile writeFile_MyFile)

lemma foldl_const: "foldl (\<lambda>w f. w) w names = w"
  by (induction names) simp_all

text \<open>The loop of \<open>indexName\<close> as a fold over the numbered files.\<close>

lemma indexLoop_enumerate:
  "indexLoop cfg newname names (count + of_nat k) w =
     foldl (\<lambda>w (i, f). writeFile cfg f (Dir f @ ''/'' @ newname @ fmt03d (count + of_nat i) @ Ext f) w)
       w (enumerate k names)"
proof (induction names arbitrary: k w)
  case Nil
  show ?case by simp
next
  case (Cons f fs)
  have "indexLoop cfg newname (f # fs) (count + of_nat k) w =
      indexLoop cfg newname fs (count + of_nat (Suc k))
        (writeFile cfg f (Dir f @ ''/'' @ newname @ fmt03d (count + of_nat k) @ Ext f) w)"
    by (simp add: Let_def ac_simps)
  also have "\<dots> =
      foldl (\<lambda>w (i, f). writeFile cfg f (Dir f @ ''/'' @ newname @ fmt03d (count + of_nat i) @ Ext f) w)
        (writeFile cfg f (Dir f @ ''/'' @ newname @ fmt03d (count + of_nat k) @ Ext f) w)
        (enumerate (Suc k) fs)"
    by (rule Cons)
  finally show ?case by simp
qed

lemma fmt03d_5_6_7: "fmt03d 5 = ''005''" "fmt03d 6 = ''006''" "fmt03d 7 = ''007''"
  by (simp_all add: fmt03d_def zeroPad_def decimal.simps eval_nat_numeral)

section \<open>The claims\<close>

text \<open>
  Claim C1: with the recursive flag, the list of files holds every file below the
  target directory, whatever its depth. The code does not do this. In \<open>renameFiles\<close>
  the loop \<open>for _, d := range dir\<close> runs over the slice as it was before the loop, so the
  directories that its body appends are never listed themselves. For the target \<open>/r\<close> of
  the example tree, the first listing gives the directory \<open>/r/a\<close>; the loop lists
  \<open>/r/a\<close> and finds \<open>/r/a/b\<close>, which it never reads: the file \<open>/r/a/b/c.txt\<close>
  exists and is not in the list. A recursive dry run with a prefix reports the files of
  \<open>/r\<close> and \<open>/r/a\<close> only, and ends with \<open>Renaming complete\<close>.
\<close>

theorem C1_deep_files_not_listed:
  "getFilesFromDir ''/r'' (start deepTree ''/'') =
     (([''/r/a''], [''/r/top.txt'']),
      \<lparr>root = deepTree, cwd = ''/'',
       trace = [Sys (SysLstat ''/r''), Sys (SysOpen ''/r''), Sys (SysReaddir ''/r'')],
       operationSuccessful = 0\<rparr>)
   \<and> traverse (defaults\<lparr>recursiveArg := True\<rparr>) [''/r/a''] [''/r/top.txt'']
        \<lparr>root = deepTree, cwd = ''/'',
         trace = [Sys (SysLstat ''/r''), Sys (SysOpen ''/r''), Sys (SysReaddir ''/r'')],
         operationSuccessful = 0\<rparr> =
     (([''/r/a'', ''/r/a/b''], [''/r/top.txt'', ''/r/a/mid.txt'']),
      \<lparr>root = deepTree, cwd = ''/'',
       trace = [Sys (SysLstat ''/r''), Sys (SysOpen ''/r''), Sys (SysReaddir ''/r''),
                Sys (SysLstat ''/r/a''), Sys (SysOpen ''/r/a''), Sys (SysReaddir ''/r/a'')],
       operationSuccessful = 0\<rparr>)
   \<and> stat (start deepTree ''/'') ''/r/a/b/c.txt'' = Some (File ''c'')
   \<and> ''/r/a/b/c.txt'' \<notin> set [''/r/top.txt'', ''/r/a/mid.txt'']
   \<and> main rv literalCompile
        (defaults\<lparr>recursiveArg := True, prefixArg := ''x_'', dryrunArg := True, targetArg := ''/r''\<rparr>)
        (start deepTree ''/'') =
     Return ()
       \<lparr>root = deepTree, cwd = ''/'',
        trace = [Sys (SysLstat ''/r''), Sys (SysOpen ''/r''), Sys (SysReaddir ''/r''),
                 Sys (SysLstat ''/r/a''), Sys (SysOpen ''/r/a''), Sys (SysReaddir ''/r/a''),
                 Sys (SysLstat ''/r/x_top.txt''),
                 Stdout ''Renaming /r/top.txt to /r/x_top.txt (dry-run)\<newline>'',
                 Sys (SysLstat ''/r/a/x_mid.txt''),
                 Stdout ''Renaming /r/a/mid.txt to /r/a/x_mid.txt (dry-run)\<newline>'',
                 Stdout ''\<newline>Renaming complete\<newline>''],
        operationSuccessful = 0\<rparr>"
proof -
  have 1: "stat (start deepTree ''/'') ''/r/a/b/c.txt'' = Some (File ''c'')"
    by (simp add: path_defs file_defs start_def deepTree_def)
  have 2: "main rv literalCompile
        (defaults\<lparr>recursiveArg := True, prefixArg := ''x_'', dryrunArg := True, targetArg := ''/r''\<rparr>)
        (start deepTree ''/'') =
     Return ()
       \<lparr>root = deepTree, cwd = ''/'',
        trace = [Sys (SysLstat ''/r''), Sys (SysOpen ''/r''), Sys (SysReaddir ''/r''),
                 Sys (SysLstat ''/r/a''), Sys (SysOpen ''/r/a''), Sys (SysReaddir ''/r/a''),
                 Sys (SysLstat ''/r/x_top.txt''),
                 Stdout ''Renaming /r/top.txt to /r/x_top.txt (dry-run)\<newline>'',
                 Sys (SysLstat ''/r/a/x_mid.txt''),
                 Stdout ''Renaming /r/a/mid.txt to /r/a/x_mid.txt (dry-run)\<newline>'',
                 Stdout ''\<newline>Renaming complete\<newline>''],
        operationSuccessful = 0\<rparr>"
    by (simp add: run_defs getFilesFromDir_r getFilesFromDir_r_a addPrefix_dry_run)
  from 1 show ?thesis
    unfolding 2 by (simp add: start_def traverse_def defaults_def getFilesFromDir_r getFilesFromDir_r_a)
qed

text \<open>
  Claim C2: a run with only the lowercase-extension flag passes the pair
  (\<open>MyFile.TXT\<close>, \<open>MyFile.txt\<close>) to \<open>writeFile\<close>. In \<open>Renamer.go\<close> the function
  \<open>lowercaseExtension\<close> computes the new name and drops it: for every list of names it
  leaves the state as it is, and the run over a directory with \<open>MyFile.TXT\<close> renames
  nothing and ends with \<open>Renaming complete\<close>. The later revision of the file calls
  \<open>writeFile\<close> with this pair, as the other transformers do.
\<close>

theorem C2_lowercaseExtension_not_applied:
  "snd (lowercaseExtension Renamer_go cfg names w) = w
   \<and> snd (lowercaseExtension Later_revision cfg [''/d/MyFile.TXT''] w) =
       writeFile cfg ''/d/MyFile.TXT'' ''/d/MyFile.txt'' w
   \<and> main Renamer_go literalCompile (defaults\<lparr>lowerExtArg := True, targetArg := ''/d''\<rparr>) (start caseTree ''/'') =
       Return ()
         \<lparr>root = caseTree, cwd = ''/'',
          trace = [Sys (SysLstat ''/d''), Sys (SysOpen ''/d''), Sys (SysReaddir ''/d''),
                   Stdout ''\<newline>Renaming complete\<newline>''],
          operationSuccessful = 0\<rparr>
   \<and> main Later_revision literalCompile (defaults\<lparr>lowerExtArg := True, targetArg := ''/d''\<rparr>) (start caseTree ''/'') =
       Return ()
         \<lparr>root = lowercasedTree, cwd = ''/'',
          trace = [Sys (SysLstat ''/d''), Sys (SysOpen ''/d''), Sys (SysReaddir ''/d''),
                   Sys (SysLstat ''/d/MyFile.txt''), Sys (SysRename ''/d/MyFile.TXT'' ''/d/MyFile.txt''),
                   Stdout ''Renaming /d/MyFile.TXT to /d/MyFile.txt\<newline>'',
                   Stdout ''\<newline>Renaming complete\<newline>''],
          operationSuccessful = 0\<rparr>"
proof -
  have 1: "snd (lowercaseExtension Renamer_go cfg names w) = w" for cfg names w
    by (simp add: lowercaseExtension_def Let_def foldl_const)
  have 2: "snd (lowercaseExtension Later_revision cfg [''/d/MyFile.TXT''] w) =
       writeFile cfg ''/d/MyFile.TXT'' ''/d/MyFile.txt'' w"
    by (simp add: lowercaseExtension_def finalname_MyFile)
  have 0: "lowercaseExtension Renamer_go cfg names w = (0, w)" for cfg names w
    using 1 [of cfg names w] by (simp add: lowercaseExtension_def)
  have 3: "main Renamer_go literalCompile (defaults\<lparr>lowerExtArg := True, targetArg := ''/d''\<rparr>) (start caseTree ''/'') =
       Return ()
         \<lparr>root = caseTree, cwd = ''/'',
          trace = [Sys (SysLstat ''/d''), Sys (SysOpen ''/d''), Sys (SysReaddir ''/d''),
                   Stdout ''\<newline>Renaming complete\<newline>''],
          operationSuccessful = 0\<rparr>"
    by (simp add: run_defs getFilesFromDir_d 0)
  have 4: "main Later_revision literalCompile (defaults\<lparr>lowerExtArg := True, targetArg := ''/d''\<rparr>) (start caseTree ''/'') =
       Return ()
         \<lparr>root = lowercasedTree, cwd = ''/'',
          trace = [Sys (SysLstat ''/d''), Sys (SysOpen ''/d''), Sys (SysReaddir ''/d''),
                   Sys (SysLstat ''/d/MyFile.txt''), Sys (SysRename ''/d/MyFile.TXT'' ''/d/MyFile.txt''),
                   Stdout ''Renaming /d/MyFile.TXT to /d/MyFile.txt\<newline>'',
                   Stdout ''\<newline>Renaming complete\<newline>''],
          operationSuccessful = 0\<rparr>"
    by (simp add: run_defs getFilesFromDir_d lowercaseExtension_MyFile)
  from 1 2 3 4 show ?thesis
    by (intro conjI)
qed

text \<open>
  Claim C3. Let the pattern be non-empty and valid, and \<open>L\<close> the list of files after
  the traversal. The loop over \<open>L\<close> returns a subsequence of \<open>L\<close> whose members have a
  base name that the pattern matches (in \<open>Renamer.go\<close>: exactly those members of \<open>L\<close>),
  without any effect; if it is not empty, the transformations run on it. If no member of
  \<open>L\<close> has a matching base name: without \<open>forceArg\<close>, \<open>renameFiles\<close> returns 1 after
  the message on the error stream, no file has been touched, and \<open>main\<close> ends with the
  message of failure; with \<open>forceArg\<close> the transformations run on \<open>L\<close> itself.
\<close>

theorem C3_matcher:
  assumes "regexpArg cfg \<noteq> []" and "Compile (regexpArg cfg) = Some P"
    and "traverse cfg dir files w = ((dir', L), w1)"
  shows "\<exists>ms. rangeFiles rv Compile cfg L [] w1 = Return ms w1
      \<and> subseq ms L \<and> (\<forall>f \<in> set ms. P (Base f))
      \<and> (rv = Renamer_go \<longrightarrow> ms = filter (\<lambda>f. P (Base f)) L)
      \<and> (ms \<noteq> [] \<longrightarrow> renameFiles rv Compile cfg dir files w = transformations rv cfg ms w1)
      \<and> ((\<forall>f \<in> set L. \<not> P (Base f)) \<and> forceArg cfg = False \<longrightarrow>
           renameFiles rv Compile cfg dir files w =
             Return 1 (Fprintf_Stderr ''No files matched, check the correctness of your regexp\<newline>'' w1)
           \<and> root w1 = root w
           \<and> andThen (renameFiles rv Compile cfg dir files w) verdict =
               Return ()
                 (Fprintf_Stdout ''\<newline>Not all files were correctly renamed, check the previous error messages''
                   (Fprintf_Stderr ''No files matched, check the correctness of your regexp\<newline>'' w1)))
      \<and> ((\<forall>f \<in> set L. \<not> P (Base f)) \<and> forceArg cfg = True \<longrightarrow>
           renameFiles rv Compile cfg dir files w =
             transformations rv cfg L
               (Fprintf_Stdout ''No files matched, including all files anyway (-force enabled)\<newline>'' w1))"
proof -
  define ms where "ms = (case rv of Renamer_go \<Rightarrow> filter (\<lambda>f. P (Base f)) L | Later_revision \<Rightarrow> [])"
  have r: "rangeFiles rv Compile cfg L [] w1 = Return ms w1"
    using assms(2) by (simp add: rangeFiles_valid [where P = P] ms_def)
  have s: "subseq ms L"
    by (cases rv) (simp_all add: ms_def)
  have m: "\<forall>f \<in> set ms. P (Base f)"
    by (cases rv) (simp_all add: ms_def)
  have g: "rv = Renamer_go \<longrightarrow> ms = filter (\<lambda>f. P (Base f)) L"
    by (simp add: ms_def)
  have e: "ms = []" if "\<forall>f \<in> set L. \<not> P (Base f)"
    using that by (cases rv) (simp_all add: ms_def)
  have w1: "root w1 = root w"
    using traverse_sel(1) [of cfg dir files w] by (simp add: assms(3))
  have u: "renameFiles rv Compile cfg dir files w =
      (if ms \<noteq> [] then transformations rv cfg ms w1
       else if forceArg cfg
         then transformations rv cfg L
                (Fprintf_Stdout ''No files matched, including all files anyway (-force enabled)\<newline>'' w1)
         else Return 1
                (Fprintf_Stderr ''No files matched, check the correctness of your regexp\<newline>'' w1))"
    using assms(1) by (cases ms) (simp_all add: renameFiles_unfold [OF assms(3)] r andThen_def)
  have a: "renameFiles rv Compile cfg dir files w = transformations rv cfg ms w1" if "ms \<noteq> []"
    using that by (simp add: u)
  have b: "renameFiles rv Compile cfg dir files w =
             Return 1 (Fprintf_Stderr ''No files matched, check the correctness of your regexp\<newline>'' w1)
           \<and> root w1 = root w
           \<and> andThen (renameFiles rv Compile cfg dir files w) verdict =
               Return ()
                 (Fprintf_Stdout ''\<newline>Not all files were correctly renamed, check the previous error messages''
                   (Fprintf_Stderr ''No files matched, check the correctness of your regexp\<newline>'' w1))"
    if "(\<forall>f \<in> set L. \<not> P (Base f)) \<and> forceArg cfg = False"
    using that e w1 by (simp add: u andThen_def verdict_def)
  have c: "renameFiles rv Compile cfg dir files w =
             transformations rv cfg L
               (Fprintf_Stdout ''No files matched, including all files anyway (-force enabled)\<newline>'' w1)"
    if "(\<forall>f \<in> set L. \<not> P (Base f)) \<and> forceArg cfg = True"
    using that e by (simp add: u)
  from r s m g a b c show ?thesis
    by blast
qed

theorem C3_matcher_witness:
  "regexpArg (defaults\<lparr>regexpArg := ''top''\<rparr>) \<noteq> []
   \<and> literalCompile (regexpArg (defaults\<lparr>regexpArg := ''top''\<rparr>)) = Some (occursIn ''top'')
   \<and> traverse (defaults\<lparr>regexpArg := ''top''\<rparr>) [''/r/a''] [''/r/top.txt'', ''/r/a/mid.txt''] (start deepTree ''/'')
       = (([''/r/a''], [''/r/top.txt'', ''/r/a/mid.txt'']), start deepTree ''/'')
   \<and> rangeFiles Renamer_go literalCompile (defaults\<lparr>regexpArg := ''top''\<rparr>)
         [''/r/top.txt'', ''/r/a/mid.txt''] [] (start deepTree ''/'')
       = Return [''/r/top.txt''] (start deepTree ''/'')
   \<and> renameFiles Renamer_go literalCompile (defaults\<lparr>regexpArg := ''top''\<rparr>) [''/r/a'']
         [''/r/top.txt'', ''/r/a/mid.txt''] (start deepTree ''/'')
       = transformations Renamer_go (defaults\<lparr>regexpArg := ''top''\<rparr>) [''/r/top.txt''] (start deepTree ''/'')
   \<and> renameFiles Renamer_go literalCompile (defaults\<lparr>regexpArg := ''zzz''\<rparr>) [''/r/a'']
         [''/r/top.txt'', ''/r/a/mid.txt''] (start deepTree ''/'')
       = Return 1 (Fprintf_Stderr ''No files matched, check the correctness of your regexp\<newline>'' (start deepTree ''/''))
   \<and> renameFiles Renamer_go literalCompile (defaults\<lparr>regexpArg := ''zzz'', forceArg := True\<rparr>) [''/r/a'']
         [''/r/top.txt'', ''/r/a/mid.txt''] (start deepTree ''/'')
       = transformations Renamer_go (defaults\<lparr>regexpArg := ''zzz'', forceArg := True\<rparr>)
           [''/r/top.txt'', ''/r/a/mid.txt'']
           (Fprintf_Stdout ''No files matched, including all files anyway (-force enabled)\<newline>'' (start deepTree ''/''))"
proof -
  let ?L = "[''/r/top.txt'', ''/r/a/mid.txt'']" and ?w = "start deepTree ''/''"
  let ?A = "defaults\<lparr>regexpArg := ''top''\<rparr>"
  let ?B = "defaults\<lparr>regexpArg := ''zzz''\<rparr>"
  let ?C = "defaults\<lparr>regexpArg := ''zzz'', forceArg := True\<rparr>"
  have tA: "traverse ?A [''/r/a''] ?L ?w = (([''/r/a''], ?L), ?w)"
    and tB: "traverse ?B [''/r/a''] ?L ?w = (([''/r/a''], ?L), ?w)"
    and tC: "traverse ?C [''/r/a''] ?L ?w = (([''/r/a''], ?L), ?w)"
    by (simp_all add: traverse_def defaults_def)
  have nA: "regexpArg ?A \<noteq> []" and nB: "regexpArg ?B \<noteq> []" and nC: "regexpArg ?C \<noteq> []"
    by simp_all
  have cA: "literalCompile (regexpArg ?A) = Some (occursIn ''top'')"
    and cB: "literalCompile (regexpArg ?B) = Some (occursIn ''zzz'')"
    and cC: "literalCompile (regexpArg ?C) = Some (occursIn ''zzz'')"
    by (simp_all add: literalCompile_top literalCompile_zzz)
  have f: "forceArg ?A = False" "forceArg ?B = False" "forceArg ?C = True"
    by (simp_all add: defaults_def)
  from C3_matcher [where Compile = literalCompile and cfg = ?A and P = "occursIn ''top''"
        and rv = Renamer_go, OF nA cA tA]
  obtain ms where r: "rangeFiles Renamer_go literalCompile ?A ?L [] ?w = Return ms ?w"
    and m: "ms = filter (\<lambda>f. occursIn ''top'' (Base f)) ?L"
    and u: "ms \<noteq> [] \<longrightarrow>
      renameFiles Renamer_go literalCompile ?A [''/r/a''] ?L ?w = transformations Renamer_go ?A ms ?w"
    by blast
  have ms: "ms = [''/r/top.txt'']"
    by (simp only: m filter_top)
  have A1: "rangeFiles Renamer_go literalCompile ?A ?L [] ?w = Return [''/r/top.txt''] ?w"
    using r by (simp only: ms)
  have A2: "renameFiles Renamer_go literalCompile ?A [''/r/a''] ?L ?w =
      transformations Renamer_go ?A [''/r/top.txt''] ?w"
    using u by (simp add: ms)
  from C3_matcher [where Compile = literalCompile and cfg = ?B and P = "occursIn ''zzz''"
        and rv = Renamer_go, OF nB cB tB] no_zzz f(2)
  have B: "renameFiles Renamer_go literalCompile ?B [''/r/a''] ?L ?w =
      Return 1 (Fprintf_Stderr ''No files matched, check the correctness of your regexp\<newline>'' ?w)"
    by blast
  from C3_matcher [where Compile = literalCompile and cfg = ?C and P = "occursIn ''zzz''"
        and rv = Renamer_go, OF nC cC tC] no_zzz f(3)
  have C: "renameFiles Renamer_go literalCompile ?C [''/r/a''] ?L ?w =
      transformations Renamer_go ?C ?L
        (Fprintf_Stdout ''No files matched, including all files anyway (-force enabled)\<newline>'' ?w)"
    by blast
  show ?thesis
    by (intro conjI nA cA tA A1 A2 B C)
qed

text \<open>
  Claim C4: with both the lowercase and the uppercase flag the run stops with the usage
  text before any input or output, and no file is touched. The code does not do this.
  The test comes in \<open>renameFiles\<close> after the traversal, the matching and the prefix,
  suffix and index transformations. With the two flags alone, the run over \<open>/r/a/b\<close>
  has listed the directory when it prints the usage text and exits; with the prefix
  \<open>p\<close> as well, it has also renamed \<open>c.txt\<close> to \<open>pc.txt\<close>.
\<close>

theorem C4_rejected_after_renaming:
  "main rv literalCompile
     (defaults\<lparr>lowerArg := True, upperArg := True, targetArg := ''/r/a/b''\<rparr>)
     (start deepTree ''/'') =
     Exit 2
       \<lparr>root = deepTree, cwd = ''/'',
        trace = [Sys (SysLstat ''/r/a/b''), Sys (SysOpen ''/r/a/b''), Sys (SysReaddir ''/r/a/b''),
                 Stderr (''Can'' @ quote @ ''t use both lowercase and uppercase, choose one only!\<newline>''),
                 Stderr usageMessage],
        operationSuccessful = 0\<rparr>
   \<and> main rv literalCompile
     (defaults\<lparr>lowerArg := True, upperArg := True, prefixArg := ''p'', targetArg := ''/r/a/b''\<rparr>)
     (start deepTree ''/'') =
     Exit 2
       \<lparr>root = renamedTree, cwd = ''/'',
        trace = [Sys (SysLstat ''/r/a/b''), Sys (SysOpen ''/r/a/b''), Sys (SysReaddir ''/r/a/b''),
                 Sys (SysLstat ''/r/a/b/pc.txt''), Sys (SysRename ''/r/a/b/c.txt'' ''/r/a/b/pc.txt''),
                 Stdout ''Renaming /r/a/b/c.txt to /r/a/b/pc.txt\<newline>'',
                 Stderr (''Can'' @ quote @ ''t use both lowercase and uppercase, choose one only!\<newline>''),
                 Stderr usageMessage],
        operationSuccessful = 0\<rparr>
   \<and> renamedTree \<noteq> deepTree
   \<and> stat (start deepTree ''/'') ''/r/a/b/c.txt'' = Some (File ''c'')
   \<and> stat (start renamedTree ''/'') ''/r/a/b/c.txt'' = None
   \<and> stat (start renamedTree ''/'') ''/r/a/b/pc.txt'' = Some (File ''c'')"
proof -
  have 1: "main rv literalCompile
     (defaults\<lparr>lowerArg := True, upperArg := True, targetArg := ''/r/a/b''\<rparr>)
     (start deepTree ''/'') =
     Exit 2
       \<lparr>root = deepTree, cwd = ''/'',
        trace = [Sys (SysLstat ''/r/a/b''), Sys (SysOpen ''/r/a/b''), Sys (SysReaddir ''/r/a/b''),
                 Stderr (''Can'' @ quote @ ''t use both lowercase and uppercase, choose one only!\<newline>''),
                 Stderr usageMessage],
        operationSuccessful = 0\<rparr>"
    by (simp add: run_defs getFilesFromDir_r_a_b quote_def)
  have 2: "main rv literalCompile
     (defaults\<lparr>lowerArg := True, upperArg := True, prefixArg := ''p'', targetArg := ''/r/a/b''\<rparr>)
     (start deepTree ''/'') =
     Exit 2
       \<lparr>root = renamedTree, cwd = ''/'',
        trace = [Sys (SysLstat ''/r/a/b''), Sys (SysOpen ''/r/a/b''), Sys (SysReaddir ''/r/a/b''),
                 Sys (SysLstat ''/r/a/b/pc.txt''), Sys (SysRename ''/r/a/b/c.txt'' ''/r/a/b/pc.txt''),
                 Stdout ''Renaming /r/a/b/c.txt to /r/a/b/pc.txt\<newline>'',
                 Stderr (''Can'' @ quote @ ''t use both lowercase and uppercase, choose one only!\<newline>''),
                 Stderr usageMessage],
        operationSuccessful = 0\<rparr>"
    by (simp add: run_defs getFilesFromDir_r_a_b addPrefix_c_txt quote_def)
  have 3: "renamedTree \<noteq> deepTree"
    by (simp add: renamedTree_def deepTree_def)
  have 4: "stat (start deepTree ''/'') ''/r/a/b/c.txt'' = Some (File ''c'')"
    "stat (start renamedTree ''/'') ''/r/a/b/c.txt'' = None"
    "stat (start renamedTree ''/'') ''/r/a/b/pc.txt'' = Some (File ''c'')"
    by (simp_all add: stat_def start_def elements_c_txt deepTree_def renamedTree_def)
  from 1 2 3 4 show ?thesis
    by (intro conjI)
qed

text \<open>
  Claim C5: a run with none of the six transformation flags is rejected with the usage
  text before any traversal, whatever the other flags. The test in \<open>flagsInit\<close> also
  requires \<open>regexpArg\<close> to be empty: with the pattern \<open>top\<close> and nothing else, the run is
  not rejected, lists the target directory and ends with \<open>Renaming complete\<close> (in the
  later revision: with the messages of a run that matched nothing).
\<close>

theorem C5_regexp_alone_is_accepted:
  "main Renamer_go literalCompile (defaults\<lparr>regexpArg := ''top'', targetArg := ''/r''\<rparr>) (start deepTree ''/'') =
     Return ()
       \<lparr>root = deepTree, cwd = ''/'',
        trace = [Sys (SysLstat ''/r''), Sys (SysOpen ''/r''), Sys (SysReaddir ''/r''),
                 Stdout ''\<newline>Renaming complete\<newline>''],
        operationSuccessful = 0\<rparr>
   \<and> main Later_revision literalCompile (defaults\<lparr>regexpArg := ''top'', targetArg := ''/r''\<rparr>) (start deepTree ''/'') =
     Return ()
       \<lparr>root = deepTree, cwd = ''/'',
        trace = [Sys (SysLstat ''/r''), Sys (SysOpen ''/r''), Sys (SysReaddir ''/r''),
                 Stderr ''No files matched, check the correctness of your regexp\<newline>'',
                 Stdout ''\<newline>Not all files were correctly renamed, check the previous error messages''],
        operationSuccessful = 0\<rparr>"
  by (simp add: run_defs getFilesFromDir_r literalCompile_top occursIn_top)

text \<open>
  Claim C6: a pattern that is not a valid regular expression stops the run with the
  usage text, for every list of files, the empty one included. The pattern is compiled
  inside the loop over the files, so for an empty list it is never compiled: on the
  empty directory \<open>/e\<close> the invalid pattern \<open>(\<close> gives the message that no file
  matched and a normal end of \<open>main\<close>, and with \<open>forceArg\<close> even \<open>Renaming complete\<close>.
  On the directory \<open>/r/a/b\<close>, which holds a file, the same pattern stops the run with
  status 2.
\<close>

theorem C6_invalid_regexp_on_empty_list:
  "main rv literalCompile (defaults\<lparr>regexpArg := ''('', prefixArg := ''x'', targetArg := ''/e''\<rparr>) (start deepTree ''/'') =
     Return ()
       \<lparr>root = deepTree, cwd = ''/'',
        trace = [Sys (SysLstat ''/e''), Sys (SysOpen ''/e''), Sys (SysReaddir ''/e''),
                 Stderr ''No files matched, check the correctness of your regexp\<newline>'',
                 Stdout ''\<newline>Not all files were correctly renamed, check the previous error messages''],
        operationSuccessful = 0\<rparr>
   \<and> main rv literalCompile
        (defaults\<lparr>regexpArg := ''('', prefixArg := ''x'', targetArg := ''/e'', forceArg := True\<rparr>) (start deepTree ''/'') =
     Return ()
       \<lparr>root = deepTree, cwd = ''/'',
        trace = [Sys (SysLstat ''/e''), Sys (SysOpen ''/e''), Sys (SysReaddir ''/e''),
                 Stdout ''No files matched, including all files anyway (-force enabled)\<newline>'',
                 Stdout ''\<newline>Renaming complete\<newline>''],
        operationSuccessful = 0\<rparr>
   \<and> literalCompile ''('' = None
   \<and> main rv literalCompile (defaults\<lparr>regexpArg := ''('', prefixArg := ''x'', targetArg := ''/r/a/b''\<rparr>) (start deepTree ''/'') =
     Exit 2
       \<lparr>root = deepTree, cwd = ''/'',
        trace = [Sys (SysLstat ''/r/a/b''), Sys (SysOpen ''/r/a/b''), Sys (SysReaddir ''/r/a/b''),
                 Stderr ''Invalid regexp: (\<newline>'',
                 Stderr ''You must give a valid regexp (or none, to operate on all files). Alternatively, add -force to force renaming all files, whether they match the regexp or not\<newline>'',
                 Stderr usageMessage],
        operationSuccessful = 0\<rparr>"
  by (simp add: run_defs getFilesFromDir_e getFilesFromDir_r_a_b literalCompile_paren addPrefix_def)

text \<open>
  Claim C7. In every call of \<open>writeFile\<close>: if \<open>os.Lstat\<close> finds the new name and
  \<open>forceArg\<close> is unset, the guard writes the diagnostic naming the new name and adds one
  to \<open>operationSuccessful\<close>, so that the call adds between one and four to it (modulo
  \<open>2^64\<close>; at least one as long as the counter does not overflow). The guard does not
  stop the attempt: without dry-run the rename, or the copy, is attempted and leaves the
  files as it would have without the guard. With \<open>forceArg\<close> set the guard records
  nothing, whether the new name exists or not.
\<close>

theorem C7_overwrite_guard:
  "(fst (os_Lstat newname w) = Inr info \<and> forceArg cfg = False \<longrightarrow>
      overwriteGuard cfg newname w =
        failed (Fprintf_Stderr (''File '' @ newname @ '' already exist! Use -force to override it\<newline>'')
          (emit (Sys (SysLstat newname)) w))
      \<and> operationSuccessful (writeFile cfg oldname newname w) \<in>
          {operationSuccessful w + 1, operationSuccessful w + 2,
           operationSuccessful w + 3, operationSuccessful w + 4}
      \<and> (0 \<le> sint (operationSuccessful w) \<and> sint (operationSuccessful w) < 2 ^ 62 \<longrightarrow>
           sint (operationSuccessful w) + 1 \<le> sint (operationSuccessful (writeFile cfg oldname newname w))))
   \<and> (dryrunArg cfg = False \<and> copyArg cfg = False \<longrightarrow>
        root (writeFile cfg oldname newname w) = root (snd (os_Rename oldname newname w))
        \<and> Sys (SysRename oldname newname) \<in> set (trace (writeFile cfg oldname newname w)))
   \<and> (dryrunArg cfg = False \<and> copyArg cfg = True \<longrightarrow>
        root (writeFile cfg oldname newname w) = root (copyFile oldname newname w)
        \<and> Sys (SysCreate newname) \<in> set (trace (writeFile cfg oldname newname w)))
   \<and> (forceArg cfg = True \<longrightarrow>
        overwriteGuard cfg newname w = emit (Sys (SysLstat newname)) w)"
proof (intro conjI impI)
  assume a: "fst (os_Lstat newname w) = Inr info \<and> forceArg cfg = False"
  then show g: "overwriteGuard cfg newname w =
        failed (Fprintf_Stderr (''File '' @ newname @ '' already exist! Use -force to override it\<newline>'')
          (emit (Sys (SysLstat newname)) w))"
    by (simp add: overwriteGuard_def split_beta Let_def)
  have c: "operationSuccessful (overwriteGuard cfg newname w) = operationSuccessful w + 1"
    by (simp add: g)
  show m: "operationSuccessful (writeFile cfg oldname newname w) \<in>
          {operationSuccessful w + 1, operationSuccessful w + 2,
           operationSuccessful w + 3, operationSuccessful w + 4}"
    using writeFile_count [of cfg oldname newname w] by (auto simp: c)
  assume "0 \<le> sint (operationSuccessful w) \<and> sint (operationSuccessful w) < 2 ^ 62"
  then show "sint (operationSuccessful w) + 1 \<le> sint (operationSuccessful (writeFile cfg oldname newname w))"
    using m sint_add_small [of "operationSuccessful w"] by auto
next
  assume "dryrunArg cfg = False \<and> copyArg cfg = False"
  then show "root (writeFile cfg oldname newname w) = root (snd (os_Rename oldname newname w))"
    and "Sys (SysRename oldname newname) \<in> set (trace (writeFile cfg oldname newname w))"
    using writeFile_rename_root [of cfg oldname newname w]
      renameFile_trace [where old = oldname and new = newname and w = "overwriteGuard cfg newname w"]
    by (simp_all add: writeFile_def Let_def)
next
  assume "dryrunArg cfg = False \<and> copyArg cfg = True"
  then show "root (writeFile cfg oldname newname w) = root (copyFile oldname newname w)"
    and "Sys (SysCreate newname) \<in> set (trace (writeFile cfg oldname newname w))"
    using writeFile_copy_root [of cfg oldname newname w]
      copyFile_trace [where old = oldname and new = newname and w = "overwriteGuard cfg newname w"]
    by (simp_all add: writeFile_def Let_def)
next
  assume "forceArg cfg = True"
  then show "overwriteGuard cfg newname w = emit (Sys (SysLstat newname)) w"
    by (simp add: overwriteGuard_def split_beta Let_def)
qed

theorem C7_overwrite_guard_witness:
  "fst (os_Lstat ''/r/a/mid.txt'' (start deepTree ''/r'')) = Inr False
   \<and> forceArg defaults = False \<and> dryrunArg defaults = False \<and> copyArg defaults = False
   \<and> operationSuccessful (writeFile defaults ''/r/top.txt'' ''/r/a/mid.txt'' (start deepTree ''/r''))
        \<in> {1, 2, 3, 4}
   \<and> 1 \<le> sint (operationSuccessful (writeFile defaults ''/r/top.txt'' ''/r/a/mid.txt'' (start deepTree ''/r'')))
   \<and> root (writeFile defaults ''/r/top.txt'' ''/r/a/mid.txt'' (start deepTree ''/r'')) =
       Directory
         [(''r'', Directory
            [(''a'', Directory
                [(''mid.txt'', File ''t''),
                 (''b'', Directory [(''c.txt'', File ''c'')])])]),
          (''e'', Directory [])]
   \<and> overwriteGuard (defaults\<lparr>forceArg := True\<rparr>) ''/r/a/mid.txt'' (start deepTree ''/r'') =
       emit (Sys (SysLstat ''/r/a/mid.txt'')) (start deepTree ''/r'')
   \<and> dryrunArg (defaults\<lparr>copyArg := True\<rparr>) = False \<and> copyArg (defaults\<lparr>copyArg := True\<rparr>) = True
   \<and> Sys (SysCreate ''/r/a/mid.txt'')
        \<in> set (trace (writeFile (defaults\<lparr>copyArg := True\<rparr>) ''/r/top.txt'' ''/r/a/mid.txt''
                 (start deepTree ''/r'')))"
proof -
  have l: "fst (os_Lstat ''/r/a/mid.txt'' (start deepTree ''/r'')) = Inr False"
    by (simp add: path_defs file_defs example_defs)
  have r: "root (snd (os_Rename ''/r/top.txt'' ''/r/a/mid.txt'' (start deepTree ''/r''))) =
       Directory
         [(''r'', Directory
            [(''a'', Directory
                [(''mid.txt'', File ''t''),
                 (''b'', Directory [(''c.txt'', File ''c'')])])]),
          (''e'', Directory [])]"
    by (simp add: path_defs file_defs example_defs)
  have o: "operationSuccessful (start deepTree ''/r'') = 0"
    by (simp add: start_def)
  show ?thesis
    using C7_overwrite_guard [of "''/r/a/mid.txt''" "start deepTree ''/r''" False defaults "''/r/top.txt''"]
      C7_overwrite_guard [of "''/r/a/mid.txt''" "start deepTree ''/r''" False "defaults\<lparr>forceArg := True\<rparr>" "''/r/top.txt''"]
      C7_overwrite_guard [of "''/r/a/mid.txt''" "start deepTree ''/r''" False "defaults\<lparr>copyArg := True\<rparr>" "''/r/top.txt''"]
      l r o
    by (simp add: defaults_def)
qed

text \<open>
  Claim C8. The index transformer with name \<open>img\<close> and start number 5 on the files
  \<open>a.txt\<close>, \<open>b.txt\<close>, \<open>c.txt\<close> calls \<open>writeFile\<close> for them in this order with the new
  names \<open>img005.txt\<close>, \<open>img006.txt\<close>, \<open>img007.txt\<close> in the directory of each file. In
  general the file at position \<open>i\<close> of the list gets the name, the counter \<open>count + i\<close>
  (modulo \<open>2^64\<close>) as \<open>%03d\<close> prints it, and its own extension: the counter starts at the
  given value, is advanced once for each file and is never reset.
\<close>

theorem C8_index_names:
  "snd (indexName cfg [''a.txt'', ''b.txt'', ''c.txt''] ''img'' 5 w) =
     writeFile cfg ''c.txt'' ''./img007.txt''
       (writeFile cfg ''b.txt'' ''./img006.txt''
         (writeFile cfg ''a.txt'' ''./img005.txt'' w))
   \<and> snd (indexName cfg [''/r/a.txt'', ''/r/b.txt'', ''/r/c.txt''] ''img'' 5 w) =
     writeFile cfg ''/r/c.txt'' ''/r/img007.txt''
       (writeFile cfg ''/r/b.txt'' ''/r/img006.txt''
         (writeFile cfg ''/r/a.txt'' ''/r/img005.txt'' w))
   \<and> map Base [''./img005.txt'', ''./img006.txt'', ''./img007.txt'',
                 ''/r/img005.txt'', ''/r/img006.txt'', ''/r/img007.txt''] =
       [''img005.txt'', ''img006.txt'', ''img007.txt'', ''img005.txt'', ''img006.txt'', ''img007.txt'']
   \<and> fst (indexName cfg names newname count w) = 0
   \<and> snd (indexName cfg names newname count w) =
       foldl (\<lambda>w (i, f). writeFile cfg f (Dir f @ ''/'' @ newname @ fmt03d (count + of_nat i) @ Ext f) w)
         w (enumerate 0 names)"
proof -
  have "snd (indexName cfg names newname count w) =
       foldl (\<lambda>w (i, f). writeFile cfg f (Dir f @ ''/'' @ newname @ fmt03d (count + of_nat i) @ Ext f) w)
         w (enumerate 0 names)"
    using indexLoop_enumerate [of cfg newname names count 0 w] by (simp add: indexName_def)
  moreover have "snd (indexName cfg [''a.txt'', ''b.txt'', ''c.txt''] ''img'' 5 w) =
     writeFile cfg ''c.txt'' ''./img007.txt''
       (writeFile cfg ''b.txt'' ''./img006.txt''
         (writeFile cfg ''a.txt'' ''./img005.txt'' w))"
    by (simp add: indexName_def Let_def fmt03d_5_6_7 path_defs)
  moreover have "snd (indexName cfg [''/r/a.txt'', ''/r/b.txt'', ''/r/c.txt''] ''img'' 5 w) =
     writeFile cfg ''/r/c.txt'' ''/r/img007.txt''
       (writeFile cfg ''/r/b.txt'' ''/r/img006.txt''
         (writeFile cfg ''/r/a.txt'' ''/r/img005.txt'' w))"
    by (simp add: indexName_def Let_def fmt03d_5_6_7 path_defs)
  moreover have "map Base [''./img005.txt'', ''./img006.txt'', ''./img007.txt'',
                 ''/r/img005.txt'', ''/r/img006.txt'', ''/r/img007.txt''] =
       [''img005.txt'', ''img006.txt'', ''img007.txt'', ''img005.txt'', ''img006.txt'', ''img007.txt'']"
    by (simp add: path_defs)
  ultimately show ?thesis
    by (simp add: indexName_def)
qed

text \<open>
  Claim C9, as stated: with the dry-run flag set, a call of \<open>writeFile\<close> records no
  failure. It does when the new name exists and \<open>forceArg\<close> is unset: the guard comes
  before the test of the dry-run flag.
\<close>

theorem C9_dry_run_counterexample:
  "dryrunArg (defaults\<lparr>dryrunArg := True\<rparr>) = True
   \<and> operationSuccessful (start deepTree ''/r'') = 0
   \<and> operationSuccessful
        (writeFile (defaults\<lparr>dryrunArg := True\<rparr>) ''/r/top.txt'' ''/r/a/mid.txt'' (start deepTree ''/r'')) = 1"
  by (simp add: path_defs file_defs program_defs example_defs)

text \<open>
  Claim C9, amended. With the dry-run flag set, a call of \<open>writeFile\<close> changes no file,
  its only system call is the \<open>os.Lstat\<close> of the guard, it writes the message
  \<open>Renaming ... to ... (dry-run)\<close>, and the only failure it can record is the guard's:
  the counter grows by one if the new name exists and \<open>forceArg\<close> is unset, and not at
  all otherwise.
\<close>

theorem C9_dry_run_amended:
  "dryrunArg cfg = True \<Longrightarrow>
     root (writeFile cfg oldname newname w) = root w
     \<and> trace (writeFile cfg oldname newname w) =
         trace w @ [Sys (SysLstat newname)]
           @ (if stat w newname \<noteq> None \<and> forceArg cfg = False
              then [Stderr (''File '' @ newname @ '' already exist! Use -force to override it\<newline>'')]
              else [])
           @ [Stdout (''Renaming '' @ oldname @ '' to '' @ newname @ '' (dry-run)\<newline>'')]
     \<and> operationSuccessful (writeFile cfg oldname newname w) =
         (if stat w newname \<noteq> None \<and> forceArg cfg = False
          then operationSuccessful w + 1
          else operationSuccessful w)"
  by (auto simp: writeFile_def overwriteGuard_def Let_def split_beta os_Lstat_def split: option.splits)

theorem C9_dry_run_amended_witness:
  "dryrunArg (defaults\<lparr>dryrunArg := True, forceArg := True\<rparr>) = True
   \<and> root (writeFile (defaults\<lparr>dryrunArg := True, forceArg := True\<rparr>) ''/r/top.txt'' ''/r/a/mid.txt''
        (start deepTree ''/r'')) = deepTree
   \<and> trace (writeFile (defaults\<lparr>dryrunArg := True, forceArg := True\<rparr>) ''/r/top.txt'' ''/r/a/mid.txt''
        (start deepTree ''/r'')) =
       [Sys (SysLstat ''/r/a/mid.txt''), Stdout ''Renaming /r/top.txt to /r/a/mid.txt (dry-run)\<newline>'']
   \<and> operationSuccessful (writeFile (defaults\<lparr>dryrunArg := True, forceArg := True\<rparr>) ''/r/top.txt''
        ''/r/a/mid.txt'' (start deepTree ''/r'')) = 0"
  using C9_dry_run_amended [of "defaults\<lparr>dryrunArg := True, forceArg := True\<rparr>" "''/r/top.txt''"
      "''/r/a/mid.txt''" "start deepTree ''/r''"]
  by (simp add: example_defs)

text \<open>
  Claim C10, as stated: whenever the transformations are reached, \<open>renameFiles\<close>
  returns 0. With both the lowercase and the uppercase flag it does not return:
  \<open>printUsage\<close> ends the process with status 2.
\<close>

theorem C10_returns_zero_counterexample:
  "renameFiles Renamer_go literalCompile (defaults\<lparr>lowerArg := True, upperArg := True\<rparr>) [] [] (start deepTree ''/'') =
     Exit 2
       \<lparr>root = deepTree, cwd = ''/'',
        trace = [Stderr (''Can'' @ quote @ ''t use both lowercase and uppercase, choose one only!\<newline>''),
                 Stderr usageMessage],
        operationSuccessful = 0\<rparr>"
  by (simp add: run_defs quote_def)

text \<open>
  Claim C10, amended. Each of the six transformers returns 0 for every list and every
  state. Unless both the lowercase and the uppercase flag are set, the transformations
  return 0, and \<open>renameFiles\<close> returns 0 unless it stopped before them (status 2 for an
  invalid pattern, 1 when nothing matched and \<open>forceArg\<close> is unset); the message of
  \<open>main\<close> is then decided by \<open>operationSuccessful\<close> alone. With both flags set the
  transformations end the process with status 2.
\<close>

theorem C10_transformers_return_zero_amended:
  "fst (addPrefix cfg names pre w) = 0
   \<and> fst (addSuffix cfg names suf w) = 0
   \<and> fst (indexName cfg names newname count w) = 0
   \<and> fst (lowercaseExtension rv cfg names w) = 0
   \<and> fst (lowercaseFiles cfg names w) = 0
   \<and> fst (uppercaseFiles cfg names w) = 0
   \<and> (\<not> (lowerArg cfg = True \<and> upperArg cfg = True) \<longrightarrow>
        transformations rv cfg names w = Return 0 (afterCase rv cfg names (afterNaming cfg names w))
        \<and> ((\<exists>w'. renameFiles rv Compile cfg dir names w = Return 0 w'
                \<and> andThen (renameFiles rv Compile cfg dir names w) verdict =
                    Return ()
                      (Fprintf_Stdout
                        (if operationSuccessful w' = 0 then ''\<newline>Renaming complete\<newline>''
                         else ''\<newline>Not all files were correctly renamed, check the previous error messages'')
                        w'))
            \<or> (\<exists>w'. renameFiles rv Compile cfg dir names w = Return 1 w'
                \<and> root w' = root w \<and> regexpArg cfg \<noteq> [] \<and> forceArg cfg = False)
            \<or> (\<exists>w'. renameFiles rv Compile cfg dir names w = Exit 2 w'
                \<and> root w' = root w \<and> regexpArg cfg \<noteq> [] \<and> Compile (regexpArg cfg) = None)))
   \<and> (lowerArg cfg = True \<and> upperArg cfg = True \<longrightarrow>
        (\<exists>w'. transformations rv cfg names w = Exit 2 w'))"
proof -
  have "transformations rv cfg names w = Return 0 (afterCase rv cfg names (afterNaming cfg names w))"
    if "\<not> (lowerArg cfg = True \<and> upperArg cfg = True)" for names w
    using that by (rule transformations_returns)
  moreover from this renameFiles_outcomes [of rv Compile cfg dir names w]
  have "(\<exists>w'. renameFiles rv Compile cfg dir names w = Return 0 w'
                \<and> andThen (renameFiles rv Compile cfg dir names w) verdict =
                    Return ()
                      (Fprintf_Stdout
                        (if operationSuccessful w' = 0 then ''\<newline>Renaming complete\<newline>''
                         else ''\<newline>Not all files were correctly renamed, check the previous error messages'')
                        w'))
            \<or> (\<exists>w'. renameFiles rv Compile cfg dir names w = Return 1 w'
                \<and> root w' = root w \<and> regexpArg cfg \<noteq> [] \<and> forceArg cfg = False)
            \<or> (\<exists>w'. renameFiles rv Compile cfg dir names w = Exit 2 w'
                \<and> root w' = root w \<and> regexpArg cfg \<noteq> [] \<and> Compile (regexpArg cfg) = None)"
    if "\<not> (lowerArg cfg = True \<and> upperArg cfg = True)"
    using that by (auto simp: andThen_def verdict_def)
  moreover have "\<exists>w'. transformations rv cfg names w = Exit 2 w'"
    if "lowerArg cfg = True \<and> upperArg cfg = True"
    using that by (simp add: transformations_both printUsage_def)
  ultimately show ?thesis
    by (simp only: transformers_fst) blast
qed

theorem C10_transformers_return_zero_amended_witness:
  "\<not> (lowerArg defaults = True \<and> upperArg defaults = True)
   \<and> transformations Renamer_go defaults [''/r/top.txt''] (start deepTree ''/'') = Return 0 (start deepTree ''/'')
   \<and> fst (addPrefix defaults [''/r/top.txt''] ''p'' (start deepTree ''/'')) = 0
   \<and> lowerArg (defaults\<lparr>lowerArg := True, upperArg := True\<rparr>) = True
   \<and> upperArg (defaults\<lparr>lowerArg := True, upperArg := True\<rparr>) = True
   \<and> (\<exists>w'. transformations Renamer_go (defaults\<lparr>lowerArg := True, upperArg := True\<rparr>) [''/r/top.txt'']
          (start deepTree ''/'') = Exit 2 w')"
proof -
  have a: "afterCase Renamer_go defaults [''/r/top.txt''] (afterNaming defaults [''/r/top.txt''] (start deepTree ''/''))
      = start deepTree ''/''"
    by (simp add: afterCase_def afterNaming_def defaults_def)
  have d: "\<not> (lowerArg defaults = True \<and> upperArg defaults = True)"
    by (simp add: defaults_def)
  from C10_transformers_return_zero_amended [of defaults "[''/r/top.txt'']" "''p''" "start deepTree ''/''"
      "''s''" "''i''" 1 Renamer_go literalCompile "[]"]
    C10_transformers_return_zero_amended [of "defaults\<lparr>lowerArg := True, upperArg := True\<rparr>"
      "[''/r/top.txt'']" "''p''" "start deepTree ''/''" "''s''" "''i''" 1 Renamer_go literalCompile "[]"]
  show ?thesis
    using d by (simp add: a)
qed

end
